theory Spec2Isabelle
  imports Complex_Main "HOL-Library.AList" "HOL-Library.Product_Lexorder"
begin

section \<open>Geometry: vectors, blocks and bounds\<close>

text \<open>
  A stored primitive is a numpy array of shape (6, 4, 3): six faces of four vertices of
  three coordinates. The shape is fixed, so the model uses fixed-size containers.
  Coordinates are exact reals; the rounding of float64 is not modelled.
\<close>

type_synonym vec3 = "real \<times> real \<times> real"

datatype 'a quad = Quad 'a 'a 'a 'a

datatype 'a hexa = Hexa 'a 'a 'a 'a 'a 'a

type_synonym block = "vec3 quad hexa"

type_synonym bounds = "(real \<times> real) \<times> (real \<times> real) \<times> (real \<times> real)"

type_synonym pyslice = "nat \<times> nat"

fun quad_list :: "'a quad \<Rightarrow> 'a list" where
  "quad_list (Quad a b c d) = [a, b, c, d]"

fun hexa_list :: "'a hexa \<Rightarrow> 'a list" where
  "hexa_list (Hexa a b c d e f) = [a, b, c, d, e, f]"

definition block_vertices :: "block \<Rightarrow> vec3 list" where
  "block_vertices b = concat (map quad_list (hexa_list b))"

fun first_face :: "'a hexa \<Rightarrow> 'a" where
  "first_face (Hexa a b c d e f) = a"

fun last_face :: "'a hexa \<Rightarrow> 'a" where
  "last_face (Hexa a b c d e f) = f"

fun first_vertex :: "'a quad \<Rightarrow> 'a" where
  "first_vertex (Quad a b c d) = a"

text \<open>\<open>primitive[0, 0]\<close>: the base vertex of a stored block.\<close>

definition base_vertex :: "block \<Rightarrow> vec3" where
  "base_vertex b = first_vertex (first_face b)"

text \<open>
  \<open>obj + translate\<close>, \<open>obj * reflect\<close> and \<open>-translate\<close> on one vertex. The code
  computes them in float64; here they are exact, and no property below rests on
  cancellation.
\<close>

fun vadd :: "vec3 \<Rightarrow> vec3 \<Rightarrow> vec3" where
  "vadd (a, b, c) (x, y, z) = (a + x, b + y, c + z)"

fun vmul :: "vec3 \<Rightarrow> vec3 \<Rightarrow> vec3" where
  "vmul (a, b, c) (x, y, z) = (a * x, b * y, c * z)"

fun vneg :: "vec3 \<Rightarrow> vec3" where
  "vneg (a, b, c) = (- a, - b, - c)"

fun vdiv :: "vec3 \<Rightarrow> real \<Rightarrow> vec3" where
  "vdiv (a, b, c) k = (a / k, b / k, c / k)"

fun vmin :: "vec3 \<Rightarrow> vec3 \<Rightarrow> vec3" where
  "vmin (a, b, c) (x, y, z) = (min a x, min b y, min c z)"

fun vmax :: "vec3 \<Rightarrow> vec3 \<Rightarrow> vec3" where
  "vmax (a, b, c) (x, y, z) = (max a x, max b y, max c z)"

text \<open>\<open>np.any(val)\<close>: some component is non-zero.\<close>

fun np_any :: "vec3 \<Rightarrow> bool" where
  "np_any (a, b, c) = (a \<noteq> 0 \<or> b \<noteq> 0 \<or> c \<noteq> 0)"

definition zero_vec :: vec3 where
  "zero_vec = (0, 0, 0)"

definition zero_block :: block where
  "zero_block =
     (let q = Quad zero_vec zero_vec zero_vec zero_vec in Hexa q q q q q q)"

text \<open>
  \<open>np.mean(points, axis=0)\<close>, \<open>np.min(points, axis=0)\<close> and
  \<open>np.max(points, axis=0)\<close> over a list of points.
\<close>

definition vmean :: "vec3 list \<Rightarrow> vec3" where
  "vmean ps = vdiv (foldl vadd zero_vec ps) (real (length ps))"

definition vmin_list :: "vec3 list \<Rightarrow> vec3" where
  "vmin_list ps = foldl vmin (hd ps) (tl ps)"

definition vmax_list :: "vec3 list \<Rightarrow> vec3" where
  "vmax_list ps = foldl vmax (hd ps) (tl ps)"

text \<open>
  \<open>_convert_basis\<close>: \<open>np.dot(coordinate, basis)\<close> with the basis set in
  \<open>__init__\<close> (width on axis 0, height on axis 2, depth on axis 1), which swaps the
  second and third components.
\<close>

fun convert_basis :: "vec3 \<Rightarrow> vec3" where
  "convert_basis (x, y, z) = (x, z, y)"

text \<open>The columns \<open>dims[:, 0]\<close> and \<open>dims[:, 1]\<close> of the (3, 2) array of extrema.\<close>

fun dims_mins :: "bounds \<Rightarrow> vec3" where
  "dims_mins ((l0, h0), (l1, h1), (l2, h2)) = (l0, l1, l2)"

fun dims_maxes :: "bounds \<Rightarrow> vec3" where
  "dims_maxes ((l0, h0), (l1, h1), (l2, h2)) = (h0, h1, h2)"

fun mk_dims :: "vec3 \<Rightarrow> vec3 \<Rightarrow> bounds" where
  "mk_dims (l0, l1, l2) (h0, h1, h2) = ((l0, h0), (l1, h1), (l2, h2))"

text \<open>
  The list comprehension of \<open>_add_cuboid_primitive\<close> and \<open>_add_cuboid_composite\<close>:
  \<open>[min(dims[i][0], box[i][0]), max(dims[i][1], box[i][1])]\<close> for each axis.
\<close>

definition merge_extrema :: "bounds \<Rightarrow> bounds \<Rightarrow> bounds" where
  "merge_extrema d b =
     mk_dims (vmin (dims_mins d) (dims_mins b)) (vmax (dims_maxes d) (dims_maxes b))"

section \<open>Python values, objects and errors\<close>

datatype pyval = PNone | PStr string | PNum real | PList "pyval list"

type_synonym metadata = "(string \<times> pyval) list"

text \<open>
  A \<open>Cube\<close> or \<open>Cuboid\<close> as the store reads it: \<open>faces\<close>, \<open>name\<close>, \<open>shape()\<close>,
  \<open>bounding_box()\<close>, \<open>points()\<close> and \<open>visual_metadata()\<close>. The classes live in
  \<open>brickblock/objects.py\<close>; what their methods return is taken as given.
\<close>

record cuboid =
  c_faces :: block
  c_name :: "string option"
  c_shape :: vec3
  c_bounding_box :: bounds
  c_points :: "vec3 list"
  c_visual_metadata :: metadata

text \<open>A \<open>CompositeCube\<close>: \<open>faces\<close> has one block per member primitive.\<close>

record composite =
  k_faces :: "block list"
  k_name :: "string option"
  k_shape :: vec3
  k_visual_metadata :: metadata
  k_style :: string

datatype error =
    NameExists
  | NoIds
  | UnknownKey
  | BadCoordinate
  | UnknownName
  | InvalidTimestep
  | InvalidScene
  | ExactlyOneTransform
  | ExactlyOneSelection
  | EmptyScene
  | StyleNotSupported
  | IndexError
  | NumpyValueError
  | TypeError

section \<open>The temporal index\<close>

text \<open>
  Modelled from the spec: \<open>SpaceIndex\<close> (\<open>brickblock/index.py\<close>) is not among the
  sources. The spec describes two parallel logs, one over primitive ids and one over
  composite ranges, each entry tagged with the time-step and the scene counter at the
  moment of the touch; the same id or range may appear once per touch. Queries by
  time-step are exact matches in insertion order, not deduplicated; queries by scene
  return every touch of the scene. A scene is valid when some touch was recorded in it.
\<close>

record space_index =
  primitive_log :: "(nat \<times> nat \<times> nat) list"
  composite_log :: "(pyslice \<times> nat \<times> nat) list"

definition empty_index :: space_index where
  "empty_index = \<lparr>primitive_log = [], composite_log = []\<rparr>"

definition add_primitive_to_index :: "nat \<Rightarrow> nat \<Rightarrow> nat \<Rightarrow> space_index \<Rightarrow> space_index" where
  "add_primitive_to_index p t s ix = ix\<lparr>primitive_log := primitive_log ix @ [(p, t, s)]\<rparr>"

definition add_composite_to_index :: "pyslice \<Rightarrow> nat \<Rightarrow> nat \<Rightarrow> space_index \<Rightarrow> space_index" where
  "add_composite_to_index c t s ix = ix\<lparr>composite_log := composite_log ix @ [(c, t, s)]\<rparr>"

definition primitives :: "space_index \<Rightarrow> nat list" where
  "primitives ix = map fst (primitive_log ix)"

definition composites :: "space_index \<Rightarrow> pyslice list" where
  "composites ix = map fst (composite_log ix)"

definition get_primitives_by_timestep :: "space_index \<Rightarrow> nat \<Rightarrow> nat list" where
  "get_primitives_by_timestep ix t = map fst (filter (\<lambda>(p, t', s). t' = t) (primitive_log ix))"

definition get_composites_by_timestep :: "space_index \<Rightarrow> nat \<Rightarrow> pyslice list" where
  "get_composites_by_timestep ix t = map fst (filter (\<lambda>(c, t', s). t' = t) (composite_log ix))"

definition get_primitives_by_scene :: "space_index \<Rightarrow> nat \<Rightarrow> nat list" where
  "get_primitives_by_scene ix s = map fst (filter (\<lambda>(p, t, s'). s' = s) (primitive_log ix))"

definition get_composites_by_scene :: "space_index \<Rightarrow> nat \<Rightarrow> pyslice list" where
  "get_composites_by_scene ix s = map fst (filter (\<lambda>(c, t, s'). s' = s) (composite_log ix))"

definition current_scene_is_valid :: "space_index \<Rightarrow> nat \<Rightarrow> bool" where
  "current_scene_is_valid ix expected_num_scenes =
     (get_primitives_by_scene ix (expected_num_scenes - 1) \<noteq> []
      \<or> get_composites_by_scene ix (expected_num_scenes - 1) \<noteq> [])"

text \<open>
  \<open>next(self.cuboid_index.primitives(), None)\<close>: every call of \<open>primitives()\<close> makes a
  new iterator over the log, so \<open>next\<close> yields the first logged id, or \<open>None\<close> when the
  log is empty.
\<close>

definition next_primitive :: "space_index \<Rightarrow> nat option" where
  "next_primitive ix = (case primitives ix of [] \<Rightarrow> None | p # ps \<Rightarrow> Some p)"

definition next_composite :: "space_index \<Rightarrow> pyslice option" where
  "next_composite ix = (case composites ix of [] \<Rightarrow> None | c # cs \<Rightarrow> Some c)"

section \<open>The space\<close>

datatype selector =
    ByCoordinate "real list"
  | ByName string
  | ByTimestep int
  | ByScene int

text \<open>
  The change log. \<open>Mutation\<close> and \<open>Transform\<close> carry the four optional selector fields
  \<open>name\<close>, \<open>coordinate\<close>, \<open>timestep_id\<close>, \<open>scene_id\<close> of the dataclasses.
\<close>

datatype change =
    Addition nat "string option"
  | Mutation "(string \<times> pyval list) list"
      "string option" "real list option" "int option" "int option"
  | Transform vec3 string
      "string option" "real list option" "int option" "int option"

record space =
  dims :: bounds
  mean :: vec3
  total_sum :: vec3
  num_objs :: nat
  primitive_counter :: nat
  time_step :: nat
  scene_counter :: nat
  cuboid_coordinates :: "block list"
  cuboid_shapes :: "vec3 list"
  cuboid_visual_metadata :: "(string \<times> pyval list) list"
  cuboid_index :: space_index
  cuboid_names :: "string \<rightharpoonup> (nat list option \<times> pyslice list option)"
  changelog :: "change list"

text \<open>\<open>Space.__init__\<close>: both buffers start with ten zeroed slots.\<close>

definition init_space :: space where
  "init_space =
     \<lparr>dims = ((0, 0), (0, 0), (0, 0)),
      mean = zero_vec,
      total_sum = zero_vec,
      num_objs = 0,
      primitive_counter = 0,
      time_step = 0,
      scene_counter = 0,
      cuboid_coordinates = replicate 10 zero_block,
      cuboid_shapes = replicate 10 zero_vec,
      cuboid_visual_metadata = [],
      cuboid_index = empty_index,
      cuboid_names = Map.empty,
      changelog = []\<rparr>"

text \<open>
  The outcome of a method: it returns a value, or raises with the store as it is at
  the raise, or never returns.
\<close>

datatype 'a res = Return 'a space | Raise error space | Diverge

definition bind :: "'a res \<Rightarrow> ('a \<Rightarrow> space \<Rightarrow> 'b res) \<Rightarrow> 'b res" where
  "bind r f = (case r of Return a sp \<Rightarrow> f a sp | Raise e sp \<Rightarrow> Raise e sp | Diverge \<Rightarrow> Diverge)"

section \<open>Buffers\<close>

text \<open>
  \<open>ndarray.resize((n, ...), refcheck=False)\<close> on the first axis: the rows kept are the
  old ones, in place, and new rows are zero.
\<close>

definition np_resize :: "nat \<Rightarrow> 'a \<Rightarrow> 'a list \<Rightarrow> 'a list" where
  "np_resize n z xs = take n xs @ replicate (n - length xs) z"

text \<open>
  The rows a slice \<open>[start:stop]\<close> selects in a sequence of length \<open>n\<close>: both ends
  are clipped to \<open>n\<close>, and an end before the start selects nothing.
\<close>

definition slice_lo :: "pyslice \<Rightarrow> nat \<Rightarrow> nat" where
  "slice_lo sl n = min (fst sl) n"

definition slice_hi :: "pyslice \<Rightarrow> nat \<Rightarrow> nat" where
  "slice_hi sl n = max (slice_lo sl n) (min (snd sl) n)"

definition slice_rows :: "pyslice \<Rightarrow> 'a list \<Rightarrow> 'a list" where
  "slice_rows sl xs =
     take (slice_hi sl (length xs) - slice_lo sl (length xs)) (drop (slice_lo sl (length xs)) xs)"

text \<open>
  numpy's \<open>a[start:stop] = rows\<close>: the rows must be as many as the slice selects, or a
  single row, which is broadcast; otherwise numpy raises ValueError.
\<close>

definition np_assign_rows :: "pyslice \<Rightarrow> 'a list \<Rightarrow> 'a list \<Rightarrow> 'a list option" where
  "np_assign_rows sl rows xs =
     (let lo = slice_lo sl (length xs); hi = slice_hi sl (length xs) in
      if length rows = hi - lo then Some (take lo xs @ rows @ drop hi xs)
      else if length rows = 1 then Some (take lo xs @ replicate (hi - lo) (hd rows) @ drop hi xs)
      else None)"

text \<open>numpy's \<open>a[start:stop] = row\<close> with one row broadcast over the slice.\<close>

definition np_broadcast_rows :: "pyslice \<Rightarrow> 'a \<Rightarrow> 'a list \<Rightarrow> 'a list" where
  "np_broadcast_rows sl v xs =
     (let lo = slice_lo sl (length xs); hi = slice_hi sl (length xs) in
      take lo xs @ replicate (hi - lo) v @ drop hi xs)"

text \<open>
  Python's \<open>lst[start:stop] = new\<close> on a list: the selected rows are replaced by
  \<open>new\<close>, whatever its length.
\<close>

definition list_assign_slice :: "pyslice \<Rightarrow> 'a list \<Rightarrow> 'a list \<Rightarrow> 'a list" where
  "list_assign_slice sl new xs =
     take (slice_lo sl (length xs)) xs @ new @ drop (slice_hi sl (length xs)) xs"

text \<open>
  The loop \<open>while (2 * current_no_of_entries) < num_cubes: current_no_of_entries *= 2\<close>
  of \<open>_add_cuboid_composite\<close>. It does not return from a capacity of zero.
\<close>

partial_function (option) grow_entries :: "nat \<Rightarrow> nat \<Rightarrow> nat option" where
  "grow_entries current_no_of_entries num_cubes =
     (if 2 * current_no_of_entries < num_cubes
      then grow_entries (2 * current_no_of_entries) num_cubes
      else Some current_no_of_entries)"

declare grow_entries.simps [code]

section \<open>Insertion\<close>

text \<open>
  The visual metadata store is a dict of columns; a dict keeps insertion order, so it
  is an association list. \<open>append\<close> to the column of a known key, else a new column.
\<close>

definition metadata_extend ::
  "nat \<Rightarrow> (string \<times> pyval list) list \<Rightarrow> string \<times> pyval \<Rightarrow> (string \<times> pyval list) list" where
  "metadata_extend n store kv =
     (case map_of store (fst kv) of
        Some col \<Rightarrow> AList.update (fst kv) (col @ replicate n (snd kv)) store
      | None \<Rightarrow> store @ [(fst kv, replicate n (snd kv))])"

definition add_cuboid_primitive :: "cuboid \<Rightarrow> space \<Rightarrow> nat res" where
  "add_cuboid_primitive c sp =
     (let cuboid_bounding_box = c_bounding_box c;
          cuboid_mean = vmean (c_points c);
          sp1 = sp\<lparr>total_sum := vadd (total_sum sp) cuboid_mean\<rparr>;
          sp2 = sp1\<lparr>mean := vdiv (total_sum sp1) (real (num_objs sp1 + 1))\<rparr>;
          dim = (if primitive_counter sp2 = 0 then cuboid_bounding_box
                 else merge_extrema (dims sp2) cuboid_bounding_box);
          sp3 = sp2\<lparr>dims := dim\<rparr>;
          current_no_of_entries = length (cuboid_coordinates sp3);
          sp4 = (if primitive_counter sp3 \<ge> current_no_of_entries
                 then sp3\<lparr>cuboid_coordinates :=
                        np_resize (2 * current_no_of_entries) zero_block (cuboid_coordinates sp3)\<rparr>
                 else sp3)
      in if primitive_counter sp4 \<ge> length (cuboid_shapes sp4) then Raise IndexError sp4
         else
           let sp5 = sp4\<lparr>cuboid_shapes := (cuboid_shapes sp4)[primitive_counter sp4 := c_shape c]\<rparr>
           in if primitive_counter sp5 \<ge> length (cuboid_coordinates sp5) then Raise IndexError sp5
              else
                let sp6 = sp5\<lparr>cuboid_coordinates :=
                            (cuboid_coordinates sp5)[primitive_counter sp5 := c_faces c]\<rparr>;
                    sp7 = sp6\<lparr>cuboid_visual_metadata :=
                            foldl (metadata_extend 1) (cuboid_visual_metadata sp6) (c_visual_metadata c)\<rparr>;
                    sp8 = sp7\<lparr>cuboid_index :=
                            add_primitive_to_index (primitive_counter sp7) (time_step sp7)
                              (scene_counter sp7) (cuboid_index sp7)\<rparr>;
                    primitive_id = primitive_counter sp8;
                    sp9 = sp8\<lparr>primitive_counter := primitive_counter sp8 + 1\<rparr>
                in Return primitive_id sp9)"

text \<open>
  \<open>composite.faces[0][0]\<close> and \<open>composite.faces[-1][-1]\<close>: the first face of the first
  member and the last face of the last member, eight points in all. A composite without
  members raises IndexError there; the mean of no points, which numpy gives as nan, has
  no counterpart in the reals and is whatever \<open>vmean []\<close> is.
\<close>

definition composite_points :: "block list \<Rightarrow> vec3 list" where
  "composite_points faces = quad_list (first_face (hd faces)) @ quad_list (last_face (last faces))"

definition add_cuboid_composite :: "composite \<Rightarrow> space \<Rightarrow> pyslice res" where
  "add_cuboid_composite k sp =
     (let num_cubes = length (k_faces k);
          flattened_faces = concat (map block_vertices (k_faces k));
          sp1 = sp\<lparr>total_sum := vadd (total_sum sp) (vmean flattened_faces)\<rparr>;
          sp2 = sp1\<lparr>mean := vdiv (total_sum sp1) (real (num_objs sp1 + 1))\<rparr>
      in if k_faces k = [] then Raise IndexError sp2
         else
           let pts = composite_points (k_faces k);
               composite_extrema = mk_dims (vmin_list pts) (vmax_list pts);
               dim = (if primitive_counter sp2 = 0 then composite_extrema
                      else merge_extrema (dims sp2) composite_extrema);
               sp3 = sp2\<lparr>dims := dim\<rparr>;
               current_no_of_entries = length (cuboid_coordinates sp3);
               resized =
                 (if primitive_counter sp3 + num_cubes \<ge> current_no_of_entries
                  then (case grow_entries current_no_of_entries num_cubes of
                          None \<Rightarrow> None
                        | Some n \<Rightarrow>
                            Some (sp3\<lparr>cuboid_coordinates :=
                                        np_resize (2 * n) zero_block (cuboid_coordinates sp3)\<rparr>
                                     \<lparr>cuboid_shapes :=
                                        np_resize (2 * n) zero_vec (cuboid_shapes sp3)\<rparr>))
                  else Some sp3)
           in case resized of
                None \<Rightarrow> Diverge
              | Some sp4 \<Rightarrow>
                  let base = primitive_counter sp4;
                      offset = base + num_cubes
                  in (case np_assign_rows (base, offset) (k_faces k) (cuboid_coordinates sp4) of
                       None \<Rightarrow> Raise NumpyValueError sp4
                     | Some coords \<Rightarrow>
                         let sp5 = sp4\<lparr>cuboid_coordinates := coords\<rparr>;
                             sp6 = sp5\<lparr>cuboid_shapes :=
                                     np_broadcast_rows (base, offset) (k_shape k) (cuboid_shapes sp5)\<rparr>;
                             sp7 = sp6\<lparr>cuboid_visual_metadata :=
                                     foldl (metadata_extend num_cubes) (cuboid_visual_metadata sp6)
                                       (k_visual_metadata k)\<rparr>;
                             sp8 = sp7\<lparr>primitive_counter := primitive_counter sp7 + num_cubes\<rparr>;
                             primitive_ids = (base, offset);
                             sp9 = sp8\<lparr>cuboid_index :=
                                     add_composite_to_index primitive_ids (time_step sp8)
                                       (scene_counter sp8) (cuboid_index sp8)\<rparr>
                         in if k_style k = ''classic'' then Raise StyleNotSupported sp9
                            else Return primitive_ids sp9))"

definition add_name ::
  "string option \<Rightarrow> nat list option \<times> pyslice list option \<Rightarrow> space \<Rightarrow> unit res" where
  "add_name name object_ids sp =
     (case name of
        None \<Rightarrow> Return () sp
      | Some n \<Rightarrow>
          (case cuboid_names sp n of
             Some ids \<Rightarrow> Raise NameExists sp
           | None \<Rightarrow>
               if fst object_ids = None \<and> snd object_ids = None then Raise NoIds sp
               else Return () (sp\<lparr>cuboid_names := (cuboid_names sp)(n \<mapsto> object_ids)\<rparr>)))"

text \<open>
  \<open>_update_bounds\<close>: the reshape to \<open>(N * 6 * 4, 3)\<close> needs the slice to select
  exactly \<open>N = stop - start\<close> rows, and \<open>np.min\<close> of no rows raises ValueError.
\<close>

definition update_bounds :: "pyslice \<Rightarrow> space \<Rightarrow> unit res" where
  "update_bounds primitive_ids sp =
     (let N = snd primitive_ids - fst primitive_ids;
          rows = slice_rows primitive_ids (cuboid_coordinates sp)
      in if length rows \<noteq> N \<or> rows = [] then Raise NumpyValueError sp
         else
           let pts = concat (map block_vertices rows);
               given_mins = vmin_list pts;
               given_maxes = vmax_list pts
           in Return () (sp\<lparr>dims := mk_dims (vmin (dims_mins (dims sp)) given_mins)
                                        (vmax (dims_maxes (dims sp)) given_maxes)\<rparr>))"

text \<open>\<open>add_cube\<close> and \<open>add_cuboid\<close> have the same body.\<close>

definition add_cube :: "cuboid \<Rightarrow> space \<Rightarrow> unit res" where
  "add_cube cube sp =
     bind (add_cuboid_primitive cube sp) (\<lambda>primitive_id sp1.
     bind (add_name (c_name cube) (Some [primitive_id], None) sp1) (\<lambda>u sp2.
       let sp3 = sp2\<lparr>num_objs := num_objs sp2 + 1\<rparr>;
           sp4 = sp3\<lparr>changelog := changelog sp3 @ [Addition (time_step sp3) None]\<rparr>;
           sp5 = sp4\<lparr>time_step := time_step sp4 + 1\<rparr>
       in update_bounds (primitive_id, primitive_id + 1) sp5))"

definition add_cuboid :: "cuboid \<Rightarrow> space \<Rightarrow> unit res" where
  "add_cuboid c sp = add_cube c sp"

definition add_composite :: "composite \<Rightarrow> space \<Rightarrow> unit res" where
  "add_composite k sp =
     bind (add_cuboid_composite k sp) (\<lambda>composite_id sp1.
     bind (add_name (k_name k) (None, Some [composite_id]) sp1) (\<lambda>u sp2.
       let sp3 = sp2\<lparr>num_objs := num_objs sp2 + 1\<rparr>;
           sp4 = sp3\<lparr>changelog := changelog sp3 @ [Addition (time_step sp3) None]\<rparr>;
           sp5 = sp4\<lparr>time_step := time_step sp4 + 1\<rparr>
       in update_bounds composite_id sp5))"

section \<open>Selection\<close>

text \<open>
  The loop of \<open>_select_by_coordinate\<close> over the matching indices, with the two
  cursors \<open>primitive_id\<close> and \<open>composite_slice\<close>. A cursor moves only when it matches.
\<close>

fun classify ::
  "space_index \<Rightarrow> nat list \<Rightarrow> nat option \<Rightarrow> pyslice option \<Rightarrow> nat list \<Rightarrow> pyslice list
     \<Rightarrow> nat list \<times> pyslice list" where
  "classify ix [] primitive_id composite_slice ps cs = (ps, cs)"
| "classify ix (idx # rest) primitive_id composite_slice ps cs =
     (let hit_p = (case primitive_id of Some p \<Rightarrow> p = idx | None \<Rightarrow> False);
          ps' = (if hit_p then ps @ [the primitive_id] else ps);
          primitive_id' = (if hit_p then next_primitive ix else primitive_id);
          hit_c = (case composite_slice of Some c \<Rightarrow> fst c = idx | None \<Rightarrow> False);
          cs' = (if hit_c then cs @ [the composite_slice] else cs);
          composite_slice' = (if hit_c then next_composite ix else composite_slice)
      in classify ix rest primitive_id' composite_slice' ps' cs')"

definition select_by_coordinate :: "real list \<Rightarrow> space \<Rightarrow> error + (nat list \<times> pyslice list)" where
  "select_by_coordinate coordinate sp =
     (case coordinate of
        [x, y, z] \<Rightarrow>
          let c = convert_basis (x, y, z) in
          if primitive_counter sp > length (cuboid_coordinates sp) then Inl IndexError
          else
            let matching_base_vectors =
                  filter (\<lambda>idx. base_vertex (cuboid_coordinates sp ! idx) = c)
                    [0 ..< primitive_counter sp]
            in Inr (classify (cuboid_index sp) matching_base_vectors
                      (next_primitive (cuboid_index sp)) (next_composite (cuboid_index sp)) [] [])
      | _ \<Rightarrow> Inl BadCoordinate)"

definition select_by_name :: "string \<Rightarrow> space \<Rightarrow> error + (nat list \<times> pyslice list)" where
  "select_by_name name sp =
     (case cuboid_names sp name of
        None \<Rightarrow> Inl UnknownName
      | Some (primitive_ids, composite_ids) \<Rightarrow>
          Inr (case primitive_ids of None \<Rightarrow> [] | Some ps \<Rightarrow> ps,
               case composite_ids of None \<Rightarrow> [] | Some cs \<Rightarrow> cs))"

definition select_by_timestep :: "int \<Rightarrow> space \<Rightarrow> error + (nat list \<times> pyslice list)" where
  "select_by_timestep timestep sp =
     (if timestep < 0 \<or> timestep > int (time_step sp) then Inl InvalidTimestep
      else Inr (get_primitives_by_timestep (cuboid_index sp) (nat timestep),
                get_composites_by_timestep (cuboid_index sp) (nat timestep)))"

text \<open>
  \<open>sorted(list(set(ids)))\<close>; slices go through their \<open>(start, stop)\<close> pairs and are
  ordered as such.
\<close>

definition select_by_scene :: "int \<Rightarrow> space \<Rightarrow> error + (nat list \<times> pyslice list)" where
  "select_by_scene scene sp =
     (if scene < 0 \<or> scene > int (scene_counter sp) then Inl InvalidScene
      else Inr (sort (remdups (get_primitives_by_scene (cuboid_index sp) (nat scene))),
                sort (remdups (get_composites_by_scene (cuboid_index sp) (nat scene)))))"

fun select :: "selector \<Rightarrow> space \<Rightarrow> error + (nat list \<times> pyslice list)" where
  "select (ByCoordinate c) sp = select_by_coordinate c sp"
| "select (ByName n) sp = select_by_name n sp"
| "select (ByTimestep t) sp = select_by_timestep t sp"
| "select (ByScene s) sp = select_by_scene s sp"

section \<open>Mutation\<close>

text \<open>
  The two inner loops of \<open>_mutate_by_ids\<close> on the column of one key: the value read
  before each write is appended to the captured list. The result holds the error, if
  an index was out of range, and the captured values and the column as they are then.
\<close>

fun mutate_primitives ::
  "pyval \<Rightarrow> nat list \<Rightarrow> pyval list \<Rightarrow> pyval list \<Rightarrow> error option \<times> pyval list \<times> pyval list" where
  "mutate_primitives v [] olds col = (None, olds, col)"
| "mutate_primitives v (primitive_id # rest) olds col =
     (if primitive_id < length col
      then mutate_primitives v rest (olds @ [col ! primitive_id]) (col[primitive_id := v])
      else (Some IndexError, olds, col))"

fun mutate_composites ::
  "pyval \<Rightarrow> pyslice list \<Rightarrow> pyval list \<Rightarrow> pyval list \<Rightarrow> error option \<times> pyval list \<times> pyval list" where
  "mutate_composites v [] olds col = (None, olds, col)"
| "mutate_composites v (composite_id # rest) olds col =
     (let N = snd composite_id - fst composite_id in
      if fst composite_id < length col
      then mutate_composites v rest (olds @ [col ! fst composite_id])
             (list_assign_slice composite_id (replicate N v) col)
      else (Some IndexError, olds, col))"

definition mutate_column ::
  "pyval \<Rightarrow> nat list \<Rightarrow> pyslice list \<Rightarrow> pyval list \<Rightarrow> error option \<times> pyval list \<times> pyval list" where
  "mutate_column v primitive_ids composite_ids col =
     (case mutate_primitives v primitive_ids [] col of
        (Some e, olds, col1) \<Rightarrow> (Some e, olds, col1)
      | (None, olds, col1) \<Rightarrow> mutate_composites v composite_ids olds col1)"

text \<open>The loop over \<open>kwargs.keys()\<close>; an unknown key raises at its turn.\<close>

fun mutate_keys ::
  "(string \<times> pyval) list \<Rightarrow> nat list \<Rightarrow> pyslice list \<Rightarrow> (string \<times> pyval list) list \<Rightarrow> space
     \<Rightarrow> (string \<times> pyval list) list res" where
  "mutate_keys [] primitive_ids composite_ids before sp = Return before sp"
| "mutate_keys ((key, v) # rest) primitive_ids composite_ids before sp =
     (case map_of (cuboid_visual_metadata sp) key of
        None \<Rightarrow> Raise UnknownKey sp
      | Some col \<Rightarrow>
          (case mutate_column v primitive_ids composite_ids col of
             (err, olds, col') \<Rightarrow>
               let sp' = sp\<lparr>cuboid_visual_metadata :=
                            AList.update key col' (cuboid_visual_metadata sp)\<rparr>
               in (case err of
                     Some e \<Rightarrow> Raise e sp'
                   | None \<Rightarrow>
                       mutate_keys rest primitive_ids composite_ids
                         (AList.update key olds before) sp')))"

definition register_touches :: "nat list \<Rightarrow> pyslice list \<Rightarrow> space \<Rightarrow> space" where
  "register_touches primitive_ids composite_ids sp =
     (let ix1 = foldl (\<lambda>ix p. add_primitive_to_index p (time_step sp) (scene_counter sp) ix)
                  (cuboid_index sp) primitive_ids;
          ix2 = foldl (\<lambda>ix c. add_composite_to_index c (time_step sp) (scene_counter sp) ix)
                  ix1 composite_ids
      in sp\<lparr>cuboid_index := ix2\<rparr>)"

definition mutate_by_ids ::
  "nat list \<Rightarrow> pyslice list \<Rightarrow> (string \<times> pyval) list \<Rightarrow> space \<Rightarrow> (string \<times> pyval list) list res" where
  "mutate_by_ids primitive_ids composite_ids kwargs sp =
     bind (mutate_keys kwargs primitive_ids composite_ids [] sp) (\<lambda>before_mutation_kwargs sp1.
       let sp2 = register_touches primitive_ids composite_ids sp1;
           sp3 = sp2\<lparr>time_step := time_step sp2 + 1\<rparr>
       in Return before_mutation_kwargs sp3)"

fun mutation_entry :: "selector \<Rightarrow> (string \<times> pyval list) list \<Rightarrow> change" where
  "mutation_entry (ByCoordinate c) subject = Mutation subject None (Some c) None None"
| "mutation_entry (ByName n) subject = Mutation subject (Some n) None None None"
| "mutation_entry (ByTimestep t) subject = Mutation subject None None (Some t) None"
| "mutation_entry (ByScene s) subject = Mutation subject None None None (Some s)"

text \<open>
  \<open>mutate_by_coordinate\<close>, \<open>mutate_by_name\<close>, \<open>mutate_by_timestep\<close> and
  \<open>mutate_by_scene\<close> differ in the selection and in the selector field of the entry.
\<close>

definition mutate_by :: "selector \<Rightarrow> (string \<times> pyval) list \<Rightarrow> space \<Rightarrow> unit res" where
  "mutate_by sel kwargs sp =
     (case select sel sp of
        Inl e \<Rightarrow> Raise e sp
      | Inr (primitives_to_update, composites_to_update) \<Rightarrow>
          let non_zero_selection = (primitives_to_update \<noteq> [] \<or> composites_to_update \<noteq> []);
              non_empty_kwargs = (kwargs \<noteq> [])
          in if \<not> (non_zero_selection \<and> non_empty_kwargs) then Return () sp
             else
               bind (mutate_by_ids primitives_to_update composites_to_update kwargs sp)
                 (\<lambda>previous_state sp1.
                    Return () (sp1\<lparr>changelog := changelog sp1 @ [mutation_entry sel previous_state]\<rparr>)))"

section \<open>Transforms\<close>

definition map_block :: "(vec3 \<Rightarrow> vec3) \<Rightarrow> block \<Rightarrow> block" where
  "map_block f b = map_hexa (map_quad f) b"

fun transform_primitives ::
  "(block \<Rightarrow> block) \<Rightarrow> nat list \<Rightarrow> block list \<Rightarrow> error option \<times> block list" where
  "transform_primitives func [] coords = (None, coords)"
| "transform_primitives func (primitive_id # rest) coords =
     (if primitive_id < length coords
      then transform_primitives func rest (coords[primitive_id := func (coords ! primitive_id)])
      else (Some IndexError, coords))"

definition transform_slice :: "(block \<Rightarrow> block) \<Rightarrow> block list \<Rightarrow> pyslice \<Rightarrow> block list" where
  "transform_slice func coords composite_id =
     take (slice_lo composite_id (length coords)) coords
     @ map func (slice_rows composite_id coords)
     @ drop (slice_hi composite_id (length coords)) coords"

definition transform_by_ids ::
  "nat list \<Rightarrow> pyslice list \<Rightarrow> (block \<Rightarrow> block) \<Rightarrow> space \<Rightarrow> unit res" where
  "transform_by_ids primitive_ids composite_ids func sp =
     (case transform_primitives func primitive_ids (cuboid_coordinates sp) of
        (Some e, coords) \<Rightarrow> Raise e (sp\<lparr>cuboid_coordinates := coords\<rparr>)
      | (None, coords) \<Rightarrow>
          let sp1 = sp\<lparr>cuboid_coordinates := foldl (transform_slice func) coords composite_ids\<rparr>;
              sp2 = register_touches primitive_ids composite_ids sp1;
              sp3 = sp2\<lparr>time_step := time_step sp2 + 1\<rparr>
          in Return () sp3)"

text \<open>
  The two \<open>if ... is not None\<close> blocks of the transform methods: the value tested by
  \<open>np.any\<close>, the function applied to each vertex, and the vector and name logged.
\<close>

definition transform_kind ::
  "vec3 option \<Rightarrow> vec3 option \<Rightarrow> (vec3 \<times> (vec3 \<Rightarrow> vec3) \<times> vec3 \<times> string) option" where
  "transform_kind translate reflect =
     (let k1 = (case translate of
                  Some t \<Rightarrow> Some (t, (\<lambda>obj. vadd obj t), vneg t, ''translation'')
                | None \<Rightarrow> None)
      in case reflect of
           Some r \<Rightarrow> Some (r, (\<lambda>obj. vmul obj r), r, ''reflection'')
         | None \<Rightarrow> k1)"

fun transform_entry :: "selector \<Rightarrow> vec3 \<Rightarrow> string \<Rightarrow> change" where
  "transform_entry (ByCoordinate c) tv tn = Transform tv tn None (Some c) None None"
| "transform_entry (ByName n) tv tn = Transform tv tn (Some n) None None None"
| "transform_entry (ByTimestep t) tv tn = Transform tv tn None None (Some t) None"
| "transform_entry (ByScene s) tv tn = Transform tv tn None None None (Some s)"

text \<open>
  \<open>transform_by_coordinate\<close>, \<open>transform_by_name\<close>, \<open>transform_by_timestep\<close> and
  \<open>transform_by_scene\<close> differ in the selection and in the selector field of the entry.
\<close>

definition transform_by :: "selector \<Rightarrow> vec3 option \<Rightarrow> vec3 option \<Rightarrow> space \<Rightarrow> unit res" where
  "transform_by sel translate reflect sp =
     (case select sel sp of
        Inl e \<Rightarrow> Raise e sp
      | Inr (primitives_to_update, composites_to_update) \<Rightarrow>
          let non_zero_selection = (primitives_to_update \<noteq> [] \<or> composites_to_update \<noteq> []);
              exactly_one_set = (length (filter (\<lambda>a. a \<noteq> None) [translate, reflect]) = 1)
          in if \<not> exactly_one_set then Raise ExactlyOneTransform sp
             else
               (case transform_kind translate reflect of
                  None \<Rightarrow> Raise ExactlyOneTransform sp
                | Some (val, func, tv, tn) \<Rightarrow>
                    let non_zero_transform = np_any val in
                    if \<not> (non_zero_selection \<and> non_zero_transform) then Return () sp
                    else
                      let sp1 = sp\<lparr>changelog := changelog sp @ [transform_entry sel tv tn]\<rparr>
                      in transform_by_ids primitives_to_update composites_to_update
                           (map_block func) sp1))"

text \<open>
  A call with keyword arguments: the transform methods take \<open>translate\<close> and
  \<open>reflect\<close> only, and Python raises TypeError for any other keyword before the body
  runs.
\<close>

definition transform_call :: "selector \<Rightarrow> (string \<times> vec3) list \<Rightarrow> space \<Rightarrow> unit res" where
  "transform_call sel kwargs sp =
     (if \<exists>k \<in> set (map fst kwargs). k \<noteq> ''translate'' \<and> k \<noteq> ''reflect'' then Raise TypeError sp
      else transform_by sel (map_of kwargs ''translate'') (map_of kwargs ''reflect'') sp)"

section \<open>Snapshots\<close>

definition snapshot :: "space \<Rightarrow> unit res" where
  "snapshot sp =
     (let expected_num_scenes = scene_counter sp + 1 in
      if \<not> current_scene_is_valid (cuboid_index sp) expected_num_scenes then Raise EmptyScene sp
      else Return () (sp\<lparr>scene_counter := scene_counter sp + 1\<rparr>))"

section \<open>Cloning\<close>

text \<open>
  The constructors \<open>Cuboid(base, w, h, d, **visual_metadata, name=None)\<close> and
  \<open>CompositeCube(base, w, h, d, **visual_metadata, name=None)\<close> build the geometry of
  a clone. They live in \<open>brickblock/objects.py\<close> and are parameters here.
\<close>

record objects =
  new_Cuboid :: "vec3 \<Rightarrow> vec3 \<Rightarrow> metadata \<Rightarrow> cuboid"
  new_CompositeCube :: "vec3 \<Rightarrow> int \<times> int \<times> int \<Rightarrow> metadata \<Rightarrow> composite"

text \<open>Python's \<open>int(x)\<close> on a float truncates towards zero.\<close>

definition py_int :: "real \<Rightarrow> int" where
  "py_int x = (if x \<ge> 0 then \<lfloor>x\<rfloor> else \<lceil>x\<rceil>)"

text \<open>The inner loop over \<open>kwargs.keys()\<close> that builds \<open>kwargs_for_id\<close> for position \<open>i\<close>.\<close>

fun kwargs_for_id ::
  "(string \<times> pyval list) list \<Rightarrow> nat \<Rightarrow> (string \<times> pyval) list \<Rightarrow> metadata \<Rightarrow> error + metadata" where
  "kwargs_for_id store i [] acc = Inr acc"
| "kwargs_for_id store i ((key, v) # rest) acc =
     (if map_of store key = None then Inl UnknownKey
      else
        (case (case v of
                 PList xs \<Rightarrow> if i < length xs then Inr (xs ! i) else Inl IndexError
               | _ \<Rightarrow> Inr v) of
           Inl e \<Rightarrow> Inl e
         | Inr x \<Rightarrow> kwargs_for_id store i rest (AList.update key x acc)))"

fun interleave_kwargs ::
  "(string \<times> pyval list) list \<Rightarrow> (string \<times> pyval) list \<Rightarrow> nat list \<Rightarrow> error + metadata list" where
  "interleave_kwargs store kwargs [] = Inr []"
| "interleave_kwargs store kwargs (i # rest) =
     (case kwargs_for_id store i kwargs [] of
        Inl e \<Rightarrow> Inl e
      | Inr m \<Rightarrow>
          (case interleave_kwargs store kwargs rest of
             Inl e \<Rightarrow> Inl e
           | Inr ms \<Rightarrow> Inr (m # ms)))"

text \<open>
  \<open>{key: self.cuboid_visual_metadata[key][i] for key in ...keys()}\<close>; \<open>None\<close> when
  some column is too short (IndexError).
\<close>

fun read_metadata :: "(string \<times> pyval list) list \<Rightarrow> nat \<Rightarrow> metadata option" where
  "read_metadata [] i = Some []"
| "read_metadata ((key, col) # rest) i =
     (if i < length col
      then (case read_metadata rest i of None \<Rightarrow> None | Some m \<Rightarrow> Some ((key, col ! i) # m))
      else None)"

text \<open>The dict union \<open>visual_metadata | vis_met_data\<close>: the right operand wins.\<close>

definition dict_union :: "metadata \<Rightarrow> metadata \<Rightarrow> metadata" where
  "dict_union m1 m2 = foldl (\<lambda>m kv. AList.update (fst kv) (snd kv) m) m1 m2"

fun clone_primitives ::
  "objects \<Rightarrow> vec3 \<Rightarrow> (nat \<times> metadata) list \<Rightarrow> nat list \<Rightarrow> space \<Rightarrow> nat list res" where
  "clone_primitives ob offset [] new_primitive_ids sp = Return new_primitive_ids sp"
| "clone_primitives ob offset ((primitive, vis_met_data) # rest) new_primitive_ids sp =
     (case read_metadata (cuboid_visual_metadata sp) primitive of
        None \<Rightarrow> Raise IndexError sp
      | Some md \<Rightarrow>
          if primitive \<ge> length (cuboid_coordinates sp) \<or> primitive \<ge> length (cuboid_shapes sp)
          then Raise IndexError sp
          else
            let visual_metadata = dict_union md vis_met_data;
                transformed_base = convert_basis (base_vertex (cuboid_coordinates sp ! primitive));
                cub = (new_Cuboid ob (vadd transformed_base offset) (cuboid_shapes sp ! primitive)
                         visual_metadata)\<lparr>c_name := None\<rparr>
            in (case add_cuboid_primitive cub sp of
                  Return new_primitive_id sp1 \<Rightarrow>
                    clone_primitives ob offset rest (new_primitive_ids @ [new_primitive_id])
                      (sp1\<lparr>num_objs := num_objs sp1 + 1\<rparr>)
                | Raise e sp1 \<Rightarrow> Raise e sp1
                | Diverge \<Rightarrow> Diverge))"

fun clone_composites ::
  "objects \<Rightarrow> vec3 \<Rightarrow> (pyslice \<times> metadata) list \<Rightarrow> pyslice list \<Rightarrow> space \<Rightarrow> pyslice list res" where
  "clone_composites ob offset [] new_composite_ids sp = Return new_composite_ids sp"
| "clone_composites ob offset ((composite_id, vis_met_data) # rest) new_composite_ids sp =
     (let start = fst composite_id in
      case read_metadata (cuboid_visual_metadata sp) start of
        None \<Rightarrow> Raise IndexError sp
      | Some md \<Rightarrow>
          if start \<ge> length (cuboid_coordinates sp) \<or> start \<ge> length (cuboid_shapes sp)
          then Raise IndexError sp
          else
            let visual_metadata = dict_union md vis_met_data;
                transformed_base = convert_basis (base_vertex (cuboid_coordinates sp ! start));
                shape = (case cuboid_shapes sp ! start of (w, h, d) \<Rightarrow> (py_int w, py_int h, py_int d));
                k = (new_CompositeCube ob (vadd transformed_base offset) shape visual_metadata)
                      \<lparr>k_name := None\<rparr>
            in (case add_cuboid_composite k sp of
                  Return new_composite_id sp1 \<Rightarrow>
                    clone_composites ob offset rest (new_composite_ids @ [new_composite_id])
                      (sp1\<lparr>num_objs := num_objs sp1 + 1\<rparr>)
                | Raise e sp1 \<Rightarrow> Raise e sp1
                | Diverge \<Rightarrow> Diverge))"

text \<open>
  The four \<open>if ... is not None\<close> blocks that pick the selection of \<open>clone_by_offset\<close>;
  a later one overrides an earlier one.
\<close>

definition clone_selector ::
  "real list option \<Rightarrow> string option \<Rightarrow> int option \<Rightarrow> int option \<Rightarrow> selector option" where
  "clone_selector coordinate name timestep scene =
     (let s1 = map_option ByCoordinate coordinate;
          s2 = (case name of Some n \<Rightarrow> Some (ByName n) | None \<Rightarrow> s1);
          s3 = (case timestep of Some t \<Rightarrow> Some (ByTimestep t) | None \<Rightarrow> s2)
      in case scene of Some s \<Rightarrow> Some (ByScene s) | None \<Rightarrow> s3)"

text \<open>The part of \<open>clone_by_offset\<close> that follows a non-empty selection.\<close>

definition clone_selection ::
  "objects \<Rightarrow> vec3 \<Rightarrow> nat list \<Rightarrow> pyslice list \<Rightarrow> (string \<times> pyval) list \<Rightarrow> space \<Rightarrow> unit res" where
  "clone_selection ob offset primitive_ids composite_ids kwargs sp =
     (let total_number_of_ids = length primitive_ids + length composite_ids in
      case interleave_kwargs (cuboid_visual_metadata sp) kwargs [0 ..< total_number_of_ids] of
        Inl e \<Rightarrow> Raise e sp
      | Inr interleaved_kwargs \<Rightarrow>
          bind (clone_primitives ob offset (zip primitive_ids interleaved_kwargs) [] sp)
            (\<lambda>new_primitive_ids sp1.
          bind (clone_composites ob offset (zip composite_ids interleaved_kwargs) [] sp1)
            (\<lambda>new_composite_ids sp2.
               let min_id = (if new_primitive_ids \<noteq> [] then hd new_primitive_ids
                             else fst (hd new_composite_ids));
                   stop_id = (if new_composite_ids = [] then last new_primitive_ids + 1
                              else snd (last new_composite_ids));
                   sp3 = sp2\<lparr>changelog := changelog sp2 @ [Addition (time_step sp2) None]\<rparr>;
                   sp4 = sp3\<lparr>time_step := time_step sp3 + 1\<rparr>
               in update_bounds (min_id, stop_id) sp4)))"

definition clone_by_offset ::
  "objects \<Rightarrow> vec3 \<Rightarrow> real list option \<Rightarrow> string option \<Rightarrow> int option \<Rightarrow> int option
     \<Rightarrow> (string \<times> pyval) list \<Rightarrow> space \<Rightarrow> unit res" where
  "clone_by_offset ob offset coordinate name timestep scene kwargs sp =
     (let exactly_one_set =
            (length (filter id [coordinate \<noteq> None, name \<noteq> None, timestep \<noteq> None, scene \<noteq> None]) = 1)
      in if \<not> exactly_one_set then Raise ExactlyOneSelection sp
         else
           (case clone_selector coordinate name timestep scene of
              None \<Rightarrow> Raise ExactlyOneSelection sp
            | Some sel \<Rightarrow>
                (case select sel sp of
                   Inl e \<Rightarrow> Raise e sp
                 | Inr (primitive_ids, composite_ids) \<Rightarrow>
                     if primitive_ids = [] \<and> composite_ids = [] then Return () sp
                     else clone_selection ob offset primitive_ids composite_ids kwargs sp)))"

section \<open>Public operations\<close>

datatype call =
    AddCube cuboid
  | AddCuboid cuboid
  | AddComposite composite
  | MutateBy selector "(string \<times> pyval) list"
  | TransformBy selector "vec3 option" "vec3 option"
  | CloneByOffset vec3 "real list option" "string option" "int option" "int option"
      "(string \<times> pyval) list"
  | Snapshot

fun run :: "objects \<Rightarrow> call \<Rightarrow> space \<Rightarrow> unit res" where
  "run ob (AddCube c) sp = add_cube c sp"
| "run ob (AddCuboid c) sp = add_cuboid c sp"
| "run ob (AddComposite k) sp = add_composite k sp"
| "run ob (MutateBy sel kwargs) sp = mutate_by sel kwargs sp"
| "run ob (TransformBy sel translate reflect) sp = transform_by sel translate reflect sp"
| "run ob (CloneByOffset offset coordinate name timestep scene kwargs) sp =
     clone_by_offset ob offset coordinate name timestep scene kwargs sp"
| "run ob Snapshot sp = snapshot sp"

text \<open>The store after a call, whether it returned or raised.\<close>

fun store_after :: "'a res \<Rightarrow> space option" where
  "store_after (Return a sp) = Some sp"
| "store_after (Raise e sp) = Some sp"
| "store_after Diverge = None"

definition raised :: "'a res \<Rightarrow> error option" where
  "raised r = (case r of Raise e sp \<Rightarrow> Some e | _ \<Rightarrow> None)"

text \<open>A script of calls; it stops at the first call that does not return.\<close>

fun run_all :: "objects \<Rightarrow> call list \<Rightarrow> space \<Rightarrow> unit res" where
  "run_all ob [] sp = Return () sp"
| "run_all ob (c # cs) sp =
     (case run ob c sp of
        Return u sp' \<Rightarrow> run_all ob cs sp'
      | Raise e sp' \<Rightarrow> Raise e sp'
      | Diverge \<Rightarrow> Diverge)"


section \<open>Concrete objects\<close>

text \<open>
  The unit cube at the origin as the tests lay it out (\<open>mock_coordinates_entry\<close>, in
  the stored axis order), and cuboids and composites placed and scaled from it, with
  the default visual properties the tests expect.
\<close>

definition mock_coordinates_entry :: block where
  "mock_coordinates_entry =
     (let point0 = (0, 0, 0); point1 = (0, 1, 0); point2 = (1, 1, 0); point3 = (1, 0, 0);
          point4 = (0, 0, 1); point5 = (0, 1, 1); point6 = (1, 1, 1); point7 = (1, 0, 1)
      in Hexa (Quad point0 point1 point2 point3)
              (Quad point0 point4 point7 point3)
              (Quad point0 point1 point5 point4)
              (Quad point3 point7 point6 point2)
              (Quad point1 point5 point6 point2)
              (Quad point4 point5 point6 point7))"

definition default_metadata :: metadata where
  "default_metadata =
     [(''facecolor'', PNone), (''linewidth'', PNum (1 / 10)),
      (''edgecolor'', PStr ''black''), (''alpha'', PNum 0)]"

definition example_cuboid :: "vec3 \<Rightarrow> vec3 \<Rightarrow> string option \<Rightarrow> metadata \<Rightarrow> cuboid" where
  "example_cuboid base whd name md =
     (case whd of (w, h, d) \<Rightarrow>
        let b = convert_basis base;
            faces = map_block (\<lambda>v. vadd (vmul v (w, d, h)) b) mock_coordinates_entry
        in \<lparr>c_faces = faces, c_name = name, c_shape = (w, h, d),
            c_bounding_box = mk_dims b (vadd b (w, d, h)),
            c_points = map (\<lambda>v. vadd (vmul v (w, d, h)) b)
                         [(0, 0, 0), (0, 1, 0), (1, 1, 0), (1, 0, 0),
                          (0, 0, 1), (0, 1, 1), (1, 1, 1), (1, 0, 1)],
            c_visual_metadata = md\<rparr>)"

definition example_cube :: "vec3 \<Rightarrow> string option \<Rightarrow> cuboid" where
  "example_cube base name = example_cuboid base (1, 1, 1) name default_metadata"

definition example_composite :: "vec3 \<Rightarrow> nat \<times> nat \<times> nat \<Rightarrow> string option \<Rightarrow> metadata \<Rightarrow> composite" where
  "example_composite base whd name md =
     (case whd of (w, h, d) \<Rightarrow>
        let b = convert_basis base;
            cells = concat (map (\<lambda>k. concat (map (\<lambda>j. map (\<lambda>i. (real i, real j, real k)) [0 ..< w])
                                                 [0 ..< d])) [0 ..< h])
        in \<lparr>k_faces = map (\<lambda>cell. map_block (\<lambda>v. vadd (vadd v cell) b) mock_coordinates_entry) cells,
            k_name = name, k_shape = (real w, real h, real d),
            k_visual_metadata = md, k_style = ''default''\<rparr>)"

definition example_objects :: objects where
  "example_objects =
     \<lparr>new_Cuboid = (\<lambda>base whd md. example_cuboid base whd None md),
      new_CompositeCube = (\<lambda>base whd md.
         case whd of (w, h, d) \<Rightarrow> example_composite base (nat w, nat h, nat d) None md)\<rparr>"

text \<open>Two unit cubes, at the origin and at (5, 5, 5).\<close>

definition two_cubes :: space where
  "two_cubes =
     the (store_after (run_all example_objects
       [AddCube (example_cube (0, 0, 0) None), AddCube (example_cube (5, 5, 5) None)] init_space))"

text \<open>One cube named foo at (1, 2, 3), then mutated twice by name in the same scene.\<close>

definition thrice_touched :: space where
  "thrice_touched =
     the (store_after (run_all example_objects
       [AddCube (example_cube (1, 2, 3) (Some ''foo'')),
        MutateBy (ByName ''foo'') [(''facecolor'', PStr ''red'')],
        MutateBy (ByName ''foo'') [(''alpha'', PNum 1)]] init_space))"

section \<open>What a call leaves alone\<close>

definition same_log :: "space \<Rightarrow> space \<Rightarrow> bool" where
  "same_log sp sp' \<longleftrightarrow>
     changelog sp' = changelog sp \<and> time_step sp' = time_step sp
     \<and> scene_counter sp' = scene_counter sp \<and> cuboid_names sp' = cuboid_names sp"

text \<open>The failures of validation, as opposed to the errors numpy and list indexing raise.\<close>

definition validation_error :: "error \<Rightarrow> bool" where
  "validation_error e \<longleftrightarrow>
     e \<in> set [NameExists, NoIds, UnknownKey, BadCoordinate, UnknownName, InvalidTimestep,
               InvalidScene, ExactlyOneTransform, ExactlyOneSelection, EmptyScene]"

fun is_clone :: "call \<Rightarrow> bool" where
  "is_clone (CloneByOffset off co na ti sc kw) = True"
| "is_clone c = False"

fun is_mutate :: "call \<Rightarrow> bool" where
  "is_mutate (MutateBy sel kw) = True"
| "is_mutate c = False"

definition aborts_clean :: "call \<Rightarrow> error \<Rightarrow> bool" where
  "aborts_clean c e \<longleftrightarrow>
     e \<in> set [BadCoordinate, UnknownName, InvalidTimestep, InvalidScene, ExactlyOneTransform,
               ExactlyOneSelection, EmptyScene]
     \<or> (e = UnknownKey \<and> is_clone c)"

definition failure_frame :: "call \<Rightarrow> error \<Rightarrow> space \<Rightarrow> space \<Rightarrow> bool" where
  "failure_frame c e sp sp' \<longleftrightarrow>
     changelog sp' = changelog sp \<and> time_step sp' = time_step sp
     \<and> scene_counter sp' = scene_counter sp \<and> cuboid_names sp' = cuboid_names sp
     \<and> num_objs sp' = num_objs sp
     \<and> (aborts_clean c e \<longrightarrow> sp' = sp)
     \<and> (is_mutate c \<longrightarrow> sp' = sp\<lparr>cuboid_visual_metadata := cuboid_visual_metadata sp'\<rparr>)"


definition returns :: "'a res \<Rightarrow> bool" where
  "returns r = (case r of Return a sp \<Rightarrow> True | _ \<Rightarrow> False)"

text \<open>One cube named foo at the origin.\<close>

definition one_foo :: space where
  "one_foo =
     the (store_after (run_all example_objects
       [AddCube (example_cube (0, 0, 0) (Some ''foo''))] init_space))"


section \<open>Bounds\<close>

text \<open>
  The box \<open>d'\<close> extends \<open>d\<close> when no minimum has grown and no maximum has shrunk;
  a point is inside a box when it lies between the extrema on every axis.
\<close>

fun vle :: "vec3 \<Rightarrow> vec3 \<Rightarrow> bool" where
  "vle (a, b, c) (x, y, z) = (a \<le> x \<and> b \<le> y \<and> c \<le> z)"

definition extends :: "bounds \<Rightarrow> bounds \<Rightarrow> bool" where
  "extends d d' \<longleftrightarrow> vle (dims_mins d') (dims_mins d) \<and> vle (dims_maxes d) (dims_maxes d')"

definition inside :: "bounds \<Rightarrow> vec3 \<Rightarrow> bool" where
  "inside d v \<longleftrightarrow> vle (dims_mins d) v \<and> vle v (dims_maxes d)"

text \<open>The vertices of the object an add call stores.\<close>

fun inserted_vertices :: "call \<Rightarrow> vec3 list" where
  "inserted_vertices (AddCube c) = block_vertices (c_faces c)"
| "inserted_vertices (AddCuboid c) = block_vertices (c_faces c)"
| "inserted_vertices (AddComposite k) = concat (map block_vertices (k_faces k))"
| "inserted_vertices c = []"

text \<open>A cube at the origin, then translated by (10, 0, 0) through its scene.\<close>

definition moved_cube :: space where
  "moved_cube =
     the (store_after (run_all example_objects
       [AddCube (example_cube (0, 0, 0) None),
        TransformBy (ByScene 0) (Some (10, 0, 0)) None] init_space))"

text \<open>A cube at (5, 5, 5) added to a new space, and added to the space of \<open>one_foo\<close>.\<close>

definition first_cube :: space where
  "first_cube =
     the (store_after (run example_objects (AddCube (example_cube (5, 5, 5) None)) init_space))"

definition second_cube :: space where
  "second_cube =
     the (store_after (run example_objects (AddCube (example_cube (5, 5, 5) None)) one_foo))"

text \<open>The store left by a second add under the name foo.\<close>

definition duplicate_foo :: space where
  "duplicate_foo =
     the (store_after (run example_objects (AddCube (example_cube (0, 0, 0) (Some ''foo''))) one_foo))"

text \<open>A cube at (1, 2, 3), then reflected by (1, 1, 1) through its scene.\<close>

definition reflected_by_ones :: space where
  "reflected_by_ones =
     the (store_after (run_all example_objects
       [AddCube (example_cube (1, 2, 3) None),
        TransformBy (ByScene 0) None (Some (1, 1, 1))] init_space))"

section \<open>Well-formed selections\<close>

text \<open>
  A selection lists each object once: the primitive ids are distinct, the composite
  ranges are non-empty and pairwise apart, and no selected primitive lies in a selected
  range. An index is touched by a selection when it is a selected primitive or a member
  of a selected range.
\<close>

definition in_slice :: "pyslice \<Rightarrow> nat \<Rightarrow> bool" where
  "in_slice c i \<longleftrightarrow> fst c \<le> i \<and> i < snd c"




section \<open>Columns of the visual metadata\<close>




section \<open>Scripts that go on after a raise\<close>







section \<open>Frame lemmas\<close>

lemma same_log_refl [simp]: "same_log sp sp" by (simp add: same_log_def)
lemma same_log_trans: "same_log a b \<Longrightarrow> same_log b c \<Longrightarrow> same_log a c" by (simp add: same_log_def)

lemma add_cuboid_primitive_frame:
  "store_after (add_cuboid_primitive c sp) = Some sp' \<Longrightarrow> same_log sp sp' \<and> num_objs sp' = num_objs sp"
  by (auto simp: add_cuboid_primitive_def Let_def same_log_def split: if_splits)

lemma add_cuboid_primitive_raises:
  "add_cuboid_primitive c sp = Raise e sp' \<Longrightarrow> e = IndexError"
  by (auto simp: add_cuboid_primitive_def Let_def split: if_splits)

lemma add_cuboid_primitive_converges:
  "add_cuboid_primitive c sp \<noteq> Diverge"
  by (auto simp: add_cuboid_primitive_def Let_def split: if_splits)

lemma add_cuboid_composite_frame:
  "store_after (add_cuboid_composite k sp) = Some sp' \<Longrightarrow> same_log sp sp' \<and> num_objs sp' = num_objs sp"
  by (auto simp: add_cuboid_composite_def Let_def same_log_def split: if_splits option.splits)

lemma add_cuboid_composite_raises:
  "add_cuboid_composite k sp = Raise e sp' \<Longrightarrow> e \<in> {IndexError, NumpyValueError, StyleNotSupported}"
  by (auto simp: add_cuboid_composite_def Let_def split: if_splits option.splits)

lemma update_bounds_frame:
  "store_after (update_bounds sl sp) = Some sp' \<Longrightarrow> same_log sp sp' \<and> num_objs sp' = num_objs sp"
  by (auto simp: update_bounds_def Let_def same_log_def split: if_splits)

lemma update_bounds_raises:
  "update_bounds sl sp = Raise e sp' \<Longrightarrow> e = NumpyValueError"
  by (auto simp: update_bounds_def Let_def split: if_splits)


lemma add_name_frame:
  "store_after (add_name n ids sp) = Some sp' \<Longrightarrow>
     changelog sp' = changelog sp \<and> time_step sp' = time_step sp
     \<and> scene_counter sp' = scene_counter sp \<and> num_objs sp' = num_objs sp \<and> dims sp' = dims sp
     \<and> primitive_counter sp' = primitive_counter sp"
  by (auto simp: add_name_def split: option.splits if_splits)

lemma add_name_raises:
  "add_name n ids sp = Raise e sp' \<Longrightarrow> sp' = sp \<and> (e = NameExists \<or> e = NoIds)"
  by (auto simp: add_name_def split: option.splits if_splits)

lemma mutate_keys_frame:
  "store_after (mutate_keys kw ps cs before sp) = Some sp' \<Longrightarrow>
     sp' = sp\<lparr>cuboid_visual_metadata := cuboid_visual_metadata sp'\<rparr>"
proof (induction kw arbitrary: before sp)
  case Nil
  then show ?case by simp
next
  case (Cons a kw)
  obtain key v where a: "a = (key, v)" by (cases a)
  show ?case
  proof (cases "map_of (cuboid_visual_metadata sp) key")
    case None
    with Cons.prems a show ?thesis by simp
  next
    case (Some col)
    obtain err olds col' where m: "mutate_column v ps cs col = (err, olds, col')"
      by (cases "mutate_column v ps cs col")
    show ?thesis
    proof (cases err)
      case None
      with Cons.prems a Some m
      have "store_after (mutate_keys kw ps cs (AList.update key olds before)
              (sp\<lparr>cuboid_visual_metadata := AList.update key col' (cuboid_visual_metadata sp)\<rparr>)) = Some sp'"
        by (simp add: Let_def)
      from Cons.IH[OF this] show ?thesis
        by (metis space.surjective space.update_convs(10) space.select_convs)
    next
      case (Some e)
      with Cons.prems a \<open>map_of (cuboid_visual_metadata sp) key = Some col\<close> m show ?thesis
        by (auto simp: Let_def)
    qed
  qed
qed


lemma mutate_keys_raises:
  "mutate_keys kw ps cs before sp = Raise e sp' \<Longrightarrow> e = UnknownKey \<or> e = IndexError"
proof (induction kw arbitrary: before sp)
  case Nil
  then show ?case by simp
next
  case (Cons a kw)
  obtain key v where a: "a = (key, v)" by (cases a)
  have ie: "\<And>v ps olds col e o' c'. mutate_primitives v ps olds col = (Some e, o', c') \<Longrightarrow> e = IndexError"
  proof -
    fix v ps olds col e o' c'
    show "mutate_primitives v ps olds col = (Some e, o', c') \<Longrightarrow> e = IndexError"
      by (induction v ps olds col rule: mutate_primitives.induct) (auto split: if_splits)
  qed
  have ic: "\<And>v cs olds col e o' c'. mutate_composites v cs olds col = (Some e, o', c') \<Longrightarrow> e = IndexError"
  proof -
    fix v cs olds col e o' c'
    show "mutate_composites v cs olds col = (Some e, o', c') \<Longrightarrow> e = IndexError"
      by (induction v cs olds col rule: mutate_composites.induct) (auto simp: Let_def split: if_splits)
  qed
  have col: "\<And>v col e o' c'. mutate_column v ps cs col = (Some e, o', c') \<Longrightarrow> e = IndexError"
    by (auto simp: mutate_column_def split: prod.splits option.splits dest: ie ic)
  from Cons.prems a show ?case
    by (auto simp: Let_def split: option.splits prod.splits dest: col Cons.IH)
qed

lemma register_touches_frame:
  "register_touches ps cs sp = sp\<lparr>cuboid_index := cuboid_index (register_touches ps cs sp)\<rparr>"
  by (simp add: register_touches_def Let_def)

lemma transform_primitives_raises:
  "transform_primitives f ps coords = (Some e, coords') \<Longrightarrow> e = IndexError"
  by (induction f ps coords rule: transform_primitives.induct) (auto split: if_splits)

lemma transform_by_ids_frame:
  "store_after (transform_by_ids ps cs f sp) = Some sp' \<Longrightarrow>
     changelog sp' = changelog sp \<and> scene_counter sp' = scene_counter sp
     \<and> cuboid_names sp' = cuboid_names sp \<and> num_objs sp' = num_objs sp \<and> dims sp' = dims sp
     \<and> primitive_counter sp' = primitive_counter sp"
  by (auto simp: transform_by_ids_def Let_def register_touches_def split: prod.splits option.splits)

lemma transform_by_ids_raises:
  "transform_by_ids ps cs f sp = Raise e sp' \<Longrightarrow> e = IndexError"
  by (auto simp: transform_by_ids_def Let_def split: prod.splits option.splits
      dest: transform_primitives_raises)


lemma clone_primitives_raises:
  "clone_primitives ob off zs new sp = Raise e sp' \<Longrightarrow> e = IndexError"
proof (induction zs arbitrary: new sp)
  case Nil
  then show ?case by simp
next
  case (Cons z zs)
  obtain p vis where z: "z = (p, vis)" by (cases z)
  from Cons.prems z show ?case
    by (auto simp: Let_def split: option.splits if_splits res.splits
        dest: Cons.IH add_cuboid_primitive_raises)
qed


lemma add_cuboid_composite_same_log:
  "add_cuboid_composite k sp = Return x sp1 \<or> add_cuboid_composite k sp = Raise e sp1 \<Longrightarrow>
     same_log sp sp1 \<and> num_objs sp1 = num_objs sp"
  using add_cuboid_composite_frame[of k sp sp1] by auto


lemma clone_composites_raises:
  "clone_composites ob off zs new sp = Raise e sp' \<Longrightarrow>
     e \<in> {IndexError, NumpyValueError, StyleNotSupported}"
proof (induction zs arbitrary: new sp)
  case Nil
  then show ?case by simp
next
  case (Cons z zs)
  obtain c vis where z: "z = (c, vis)" by (cases z)
  from Cons.prems z show ?case
    by (auto simp: Let_def split: option.splits if_splits res.splits prod.splits
        dest: Cons.IH add_cuboid_composite_raises)
qed

lemma raised_eq: "raised r = Some e \<Longrightarrow> r = Raise e (the (store_after r))"
  by (cases r) (auto simp: raised_def)

lemma returns_store: "returns r \<Longrightarrow> store_after r = Some (the (store_after r))"
  by (cases r) (auto simp: returns_def)




lemma add_cuboid_primitive_same_log:
  "add_cuboid_primitive c sp = Return x sp1 \<or> add_cuboid_primitive c sp = Raise e sp1 \<Longrightarrow>
     same_log sp sp1 \<and> num_objs sp1 = num_objs sp"
  using add_cuboid_primitive_frame[of c sp sp1] by auto


lemma update_bounds_same_log:
  "update_bounds sl sp = Return x sp1 \<or> update_bounds sl sp = Raise e sp1 \<Longrightarrow>
     same_log sp sp1 \<and> num_objs sp1 = num_objs sp"
  using update_bounds_frame[of sl sp sp1] by auto



lemma mutate_keys_same:
  "mutate_keys kw ps cs before sp = Return x sp1 \<or> mutate_keys kw ps cs before sp = Raise e sp1 \<Longrightarrow>
     sp1 = sp\<lparr>cuboid_visual_metadata := cuboid_visual_metadata sp1\<rparr>"
  using mutate_keys_frame[of kw ps cs before sp sp1] by auto







lemma add_cube_failure:
  assumes "add_cube c sp = Raise e sp'" "validation_error e"
  shows "same_log sp sp' \<and> num_objs sp' = num_objs sp \<and> (e = NameExists \<or> e = NoIds)"
  using assms
  by (auto simp: add_cube_def bind_def Let_def same_log_def validation_error_def split: res.splits
      dest!: add_cuboid_primitive_same_log[OF disjI1] add_cuboid_primitive_raises
             add_name_raises update_bounds_raises)

lemma add_composite_failure:
  assumes "add_composite k sp = Raise e sp'" "validation_error e"
  shows "same_log sp sp' \<and> num_objs sp' = num_objs sp \<and> (e = NameExists \<or> e = NoIds)"
  using assms
  by (auto simp: add_composite_def bind_def Let_def same_log_def validation_error_def split: res.splits
      dest!: add_cuboid_composite_same_log[OF disjI1] add_cuboid_composite_raises
             add_name_raises update_bounds_raises)

lemma mutate_by_failure:
  assumes "mutate_by sel kw sp = Raise e sp'"
  shows "sp' = sp\<lparr>cuboid_visual_metadata := cuboid_visual_metadata sp'\<rparr> \<and> (e \<noteq> UnknownKey \<and> e \<noteq> IndexError \<longrightarrow> sp' = sp)"
  using assms
  by (auto simp: mutate_by_def mutate_by_ids_def bind_def Let_def
      split: sum.splits prod.splits if_splits res.splits
      dest: mutate_keys_same[OF disjI2] mutate_keys_raises)

lemma transform_by_failure:
  assumes "transform_by sel tr rf sp = Raise e sp'" "validation_error e"
  shows "sp' = sp"
  using assms
  by (auto simp: transform_by_def Let_def validation_error_def
      split: sum.splits prod.splits if_splits option.splits
      dest!: transform_by_ids_raises)

lemma clone_by_offset_failure:
  assumes "clone_by_offset ob off co na ti sc kw sp = Raise e sp'" "validation_error e"
  shows "sp' = sp"
  using assms
  by (auto simp: clone_by_offset_def clone_selection_def bind_def Let_def validation_error_def
      split: sum.splits prod.splits if_splits option.splits res.splits
      dest!: clone_primitives_raises clone_composites_raises update_bounds_raises)

lemma snapshot_failure:
  assumes "snapshot sp = Raise e sp'"
  shows "sp' = sp"
  using assms by (auto simp: snapshot_def Let_def split: if_splits)



lemma add_cube_shapes_full:
  "length (cuboid_shapes sp) \<le> primitive_counter sp \<Longrightarrow> raised (add_cube c sp) = Some IndexError"
  by (simp add: add_cube_def add_cuboid_primitive_def bind_def raised_def Let_def)

lemma update_bounds_one:
  "p < length (cuboid_coordinates sp) \<Longrightarrow>
     update_bounds (p, Suc p) sp =
       Return () (sp\<lparr>dims := mk_dims
          (vmin (dims_mins (dims sp)) (vmin_list (block_vertices (cuboid_coordinates sp ! p))))
          (vmax (dims_maxes (dims sp)) (vmax_list (block_vertices (cuboid_coordinates sp ! p))))\<rparr>)"
proof -
  assume a: "p < length (cuboid_coordinates sp)"
  then have "slice_rows (p, Suc p) (cuboid_coordinates sp) = [cuboid_coordinates sp ! p]"
    by (simp add: slice_rows_def slice_lo_def slice_hi_def take_Suc_conv_app_nth Cons_nth_drop_Suc
        min_def max_def hd_drop_conv_nth take_Suc)
  then show ?thesis by (simp add: update_bounds_def Let_def)
qed

lemma add_cube_returns:
  assumes "c_name c = None"
    and "primitive_counter sp < length (cuboid_shapes sp)"
    and "primitive_counter sp < length (cuboid_coordinates sp)"
  shows "\<exists>sp'. add_cube c sp = Return () sp'
           \<and> primitive_counter sp' = Suc (primitive_counter sp)
           \<and> length (cuboid_shapes sp') = length (cuboid_shapes sp)
           \<and> length (cuboid_coordinates sp') = length (cuboid_coordinates sp)"
proof -
  obtain sp1 where p: "add_cuboid_primitive c sp = Return (primitive_counter sp) sp1"
    and pc: "primitive_counter sp1 = Suc (primitive_counter sp)"
    and ls: "length (cuboid_shapes sp1) = length (cuboid_shapes sp)"
    and lc: "length (cuboid_coordinates sp1) = length (cuboid_coordinates sp)"
    using assms(2,3) by (simp add: add_cuboid_primitive_def Let_def)
  let ?sp5 = "sp1\<lparr>num_objs := num_objs sp1 + 1,
                 changelog := changelog sp1 @ [Addition (time_step sp1) None],
                 time_step := time_step sp1 + 1\<rparr>"
  have "primitive_counter sp < length (cuboid_coordinates ?sp5)" using lc assms(3) by simp
  from update_bounds_one[OF this] obtain d where
    u: "update_bounds (primitive_counter sp, Suc (primitive_counter sp)) ?sp5 = Return () (?sp5\<lparr>dims := d\<rparr>)"
    by simp
  have "add_cube c sp = Return () (?sp5\<lparr>dims := d\<rparr>)"
    using p u assms(1) by (simp add: add_cube_def bind_def add_name_def Let_def)
  then show ?thesis using pc ls lc by simp
qed

lemma add_cubes_overflow:
  assumes "c_name c = None"
  shows "primitive_counter sp + n = length (cuboid_shapes sp) \<Longrightarrow>
         length (cuboid_shapes sp) \<le> length (cuboid_coordinates sp) \<Longrightarrow>
         raised (run_all ob (replicate (Suc n) (AddCube c)) sp) = Some IndexError"
proof (induction n arbitrary: sp)
  case 0
  then have "raised (add_cube c sp) = Some IndexError" by (simp add: add_cube_shapes_full)
  then show ?case by (cases "add_cube c sp") (auto simp: raised_def)
next
  case (Suc n)
  from Suc.prems have "primitive_counter sp < length (cuboid_shapes sp)"
    and "primitive_counter sp < length (cuboid_coordinates sp)" by simp_all
  from add_cube_returns[OF assms this] obtain sp' where
    r: "add_cube c sp = Return () sp'" and pc: "primitive_counter sp' = Suc (primitive_counter sp)"
    and ls: "length (cuboid_shapes sp') = length (cuboid_shapes sp)"
    and lc: "length (cuboid_coordinates sp') = length (cuboid_coordinates sp)" by blast
  have "raised (run_all ob (replicate (Suc n) (AddCube c)) sp') = Some IndexError"
    using Suc.IH[of sp'] Suc.prems pc ls lc by simp
  then show ?case using r by simp
qed

lemma vle_refl [simp]: "vle a a" by (cases a) simp
lemma vle_trans: "vle a b \<Longrightarrow> vle b c \<Longrightarrow> vle a c"
  by (cases a, cases b, cases c) auto
lemma vmin_le1: "vle (vmin a b) a" by (cases a, cases b) simp
lemma vmin_le2: "vle (vmin a b) b" by (cases a, cases b) simp
lemma vmax_ge1: "vle a (vmax a b)" by (cases a, cases b) simp
lemma vmax_ge2: "vle b (vmax a b)" by (cases a, cases b) simp
lemma dims_mins_mk [simp]: "dims_mins (mk_dims a b) = a" by (cases a, cases b) simp
lemma dims_maxes_mk [simp]: "dims_maxes (mk_dims a b) = b" by (cases a, cases b) simp

lemma extends_refl [simp]: "extends d d" by (simp add: extends_def)
lemma extends_trans: "extends a b \<Longrightarrow> extends b c \<Longrightarrow> extends a c"
  unfolding extends_def by (blast intro: vle_trans)
lemma extends_merge: "extends d (merge_extrema d b)"
  by (simp add: extends_def merge_extrema_def vmin_le1 vmax_ge1)
lemma extends_update: "extends d (mk_dims (vmin (dims_mins d) m) (vmax (dims_maxes d) M))"
  by (simp add: extends_def vmin_le1 vmax_ge1)

lemma foldl_vmin_le: "vle (foldl vmin a xs) a \<and> (\<forall>x \<in> set xs. vle (foldl vmin a xs) x)"
proof (induction xs arbitrary: a)
  case Nil
  then show ?case by simp
next
  case (Cons x xs)
  from Cons.IH[of "vmin a x"] show ?case
    by (auto intro: vle_trans vmin_le1 vmin_le2)
qed

lemma foldl_vmax_ge: "vle a (foldl vmax a xs) \<and> (\<forall>x \<in> set xs. vle x (foldl vmax a xs))"
proof (induction xs arbitrary: a)
  case Nil
  then show ?case by simp
next
  case (Cons x xs)
  from Cons.IH[of "vmax a x"] show ?case
    by (auto intro: vle_trans vmax_ge1 vmax_ge2)
qed

lemma vmin_list_le: "v \<in> set ps \<Longrightarrow> vle (vmin_list ps) v"
  using foldl_vmin_le[of "hd ps" "tl ps"] by (cases ps) (auto simp: vmin_list_def)

lemma vmax_list_ge: "v \<in> set ps \<Longrightarrow> vle v (vmax_list ps)"
  using foldl_vmax_ge[of "hd ps" "tl ps"] by (cases ps) (auto simp: vmax_list_def)

lemma add_cuboid_primitive_extends:
  "0 < primitive_counter sp \<Longrightarrow> store_after (add_cuboid_primitive c sp) = Some sp' \<Longrightarrow>
     extends (dims sp) (dims sp') \<and> 0 < primitive_counter sp'"
  by (auto simp: add_cuboid_primitive_def Let_def extends_merge split: if_splits)

lemma add_cuboid_composite_extends:
  "0 < primitive_counter sp \<Longrightarrow> store_after (add_cuboid_composite k sp) = Some sp' \<Longrightarrow>
     extends (dims sp) (dims sp') \<and> 0 < primitive_counter sp'"
  by (auto simp: add_cuboid_composite_def Let_def extends_merge split: if_splits option.splits)

lemma update_bounds_extends:
  "store_after (update_bounds sl sp) = Some sp' \<Longrightarrow>
     extends (dims sp) (dims sp') \<and> primitive_counter sp' = primitive_counter sp"
  by (auto simp: update_bounds_def Let_def extends_update split: if_splits)


lemma add_cuboid_primitive_extends2:
  "0 < primitive_counter sp \<Longrightarrow>
   add_cuboid_primitive c sp = Return x sp1 \<or> add_cuboid_primitive c sp = Raise e sp1 \<Longrightarrow>
     extends (dims sp) (dims sp1) \<and> 0 < primitive_counter sp1"
  using add_cuboid_primitive_extends[of sp c sp1] by auto

lemma add_cuboid_composite_extends2:
  "0 < primitive_counter sp \<Longrightarrow>
   add_cuboid_composite k sp = Return x sp1 \<or> add_cuboid_composite k sp = Raise e sp1 \<Longrightarrow>
     extends (dims sp) (dims sp1) \<and> 0 < primitive_counter sp1"
  using add_cuboid_composite_extends[of sp k sp1] by auto

lemma clone_primitives_extends:
  "0 < primitive_counter sp \<Longrightarrow> store_after (clone_primitives ob off zs new sp) = Some sp' \<Longrightarrow>
     extends (dims sp) (dims sp') \<and> 0 < primitive_counter sp'"
proof (induction zs arbitrary: new sp)
  case Nil
  then show ?case by simp
next
  case (Cons z zs)
  obtain p vis where z: "z = (p, vis)" by (cases z)
  have step: "\<And>c x e sp1. add_cuboid_primitive c sp = Return x sp1 \<or> add_cuboid_primitive c sp = Raise e sp1
      \<Longrightarrow> extends (dims sp) (dims sp1) \<and> 0 < primitive_counter sp1"
    using add_cuboid_primitive_extends2[OF Cons.prems(1)] by blast
  have ih: "\<And>new sp1. extends (dims sp) (dims sp1) \<Longrightarrow> 0 < primitive_counter sp1 \<Longrightarrow>
      store_after (clone_primitives ob off zs new (sp1\<lparr>num_objs := num_objs sp1 + 1\<rparr>)) = Some sp' \<Longrightarrow>
      extends (dims sp) (dims sp') \<and> 0 < primitive_counter sp'"
  proof -
    fix new sp1
    assume a: "extends (dims sp) (dims sp1)" "0 < primitive_counter sp1"
      "store_after (clone_primitives ob off zs new (sp1\<lparr>num_objs := num_objs sp1 + 1\<rparr>)) = Some sp'"
    from Cons.IH[of "sp1\<lparr>num_objs := num_objs sp1 + 1\<rparr>" new] a
    show "extends (dims sp) (dims sp') \<and> 0 < primitive_counter sp'"
      by (auto intro: extends_trans)
  qed
  from Cons.prems z show ?case
    by (auto simp: Let_def split: option.splits if_splits res.splits
        dest!: step[OF disjI1] step[OF disjI2] intro: ih[THEN conjunct1] ih[THEN conjunct2])
qed

lemma clone_composites_extends:
  "0 < primitive_counter sp \<Longrightarrow> store_after (clone_composites ob off zs new sp) = Some sp' \<Longrightarrow>
     extends (dims sp) (dims sp') \<and> 0 < primitive_counter sp'"
proof (induction zs arbitrary: new sp)
  case Nil
  then show ?case by simp
next
  case (Cons z zs)
  obtain c vis where z: "z = (c, vis)" by (cases z)
  have step: "\<And>k x e sp1. add_cuboid_composite k sp = Return x sp1 \<or> add_cuboid_composite k sp = Raise e sp1
      \<Longrightarrow> extends (dims sp) (dims sp1) \<and> 0 < primitive_counter sp1"
    using add_cuboid_composite_extends2[OF Cons.prems(1)] by blast
  have ih: "\<And>new sp1. extends (dims sp) (dims sp1) \<Longrightarrow> 0 < primitive_counter sp1 \<Longrightarrow>
      store_after (clone_composites ob off zs new (sp1\<lparr>num_objs := num_objs sp1 + 1\<rparr>)) = Some sp' \<Longrightarrow>
      extends (dims sp) (dims sp') \<and> 0 < primitive_counter sp'"
  proof -
    fix new sp1
    assume a: "extends (dims sp) (dims sp1)" "0 < primitive_counter sp1"
      "store_after (clone_composites ob off zs new (sp1\<lparr>num_objs := num_objs sp1 + 1\<rparr>)) = Some sp'"
    from Cons.IH[of "sp1\<lparr>num_objs := num_objs sp1 + 1\<rparr>" new] a
    show "extends (dims sp) (dims sp') \<and> 0 < primitive_counter sp'"
      by (auto intro: extends_trans)
  qed
  from Cons.prems z show ?case
    by (auto simp: Let_def split: option.splits if_splits res.splits prod.splits
        dest!: step[OF disjI1] step[OF disjI2] intro: ih[THEN conjunct1] ih[THEN conjunct2])
qed

lemma add_cube_extends:
  "0 < primitive_counter sp \<Longrightarrow> store_after (add_cube c sp) = Some sp' \<Longrightarrow> extends (dims sp) (dims sp')"
proof -
  assume pc: "0 < primitive_counter sp" and a: "store_after (add_cube c sp) = Some sp'"
  have step: "\<And>x e sp1. add_cuboid_primitive c sp = Return x sp1 \<or> add_cuboid_primitive c sp = Raise e sp1
      \<Longrightarrow> extends (dims sp) (dims sp1)"
    using add_cuboid_primitive_extends2[OF pc] by blast
  have nm: "\<And>n ids s0 x e s1. add_name n ids s0 = Return x s1 \<or> add_name n ids s0 = Raise e s1 \<Longrightarrow> dims s1 = dims s0"
    using add_name_frame by (metis store_after.simps(1,2))
  have ub: "\<And>sl s0 s1. store_after (update_bounds sl s0) = Some s1 \<Longrightarrow> extends (dims s0) (dims s1)"
    using update_bounds_extends by blast
  from a show ?thesis
    by (auto simp: add_cube_def bind_def Let_def split: res.splits
        dest!: step[OF disjI1] step[OF disjI2] nm[OF disjI1] nm[OF disjI2] ub
        intro: extends_trans)
qed

lemma add_composite_extends:
  "0 < primitive_counter sp \<Longrightarrow> store_after (add_composite k sp) = Some sp' \<Longrightarrow> extends (dims sp) (dims sp')"
proof -
  assume pc: "0 < primitive_counter sp" and a: "store_after (add_composite k sp) = Some sp'"
  have step: "\<And>x e sp1. add_cuboid_composite k sp = Return x sp1 \<or> add_cuboid_composite k sp = Raise e sp1
      \<Longrightarrow> extends (dims sp) (dims sp1)"
    using add_cuboid_composite_extends2[OF pc] by blast
  have nm: "\<And>n ids s0 x e s1. add_name n ids s0 = Return x s1 \<or> add_name n ids s0 = Raise e s1 \<Longrightarrow> dims s1 = dims s0"
    using add_name_frame by (metis store_after.simps(1,2))
  have ub: "\<And>sl s0 s1. store_after (update_bounds sl s0) = Some s1 \<Longrightarrow> extends (dims s0) (dims s1)"
    using update_bounds_extends by blast
  from a show ?thesis
    by (auto simp: add_composite_def bind_def Let_def split: res.splits
        dest!: step[OF disjI1] step[OF disjI2] nm[OF disjI1] nm[OF disjI2] ub
        intro: extends_trans)
qed

lemma mutate_by_dims:
  "store_after (mutate_by sel kw sp) = Some sp' \<Longrightarrow> dims sp' = dims sp"
proof -
  assume a: "store_after (mutate_by sel kw sp) = Some sp'"
  have k: "\<And>ps cs x e sp1. mutate_keys kw ps cs [] sp = Return x sp1 \<or> mutate_keys kw ps cs [] sp = Raise e sp1
              \<Longrightarrow> dims sp1 = dims sp"
    by (metis mutate_keys_same space.select_convs(1) space.surjective space.update_convs(10))
  from a show ?thesis
    by (auto simp: mutate_by_def mutate_by_ids_def bind_def Let_def register_touches_def
        split: sum.splits prod.splits if_splits res.splits dest: k[OF disjI1] k[OF disjI2])
qed

lemma transform_by_dims:
  "store_after (transform_by sel tr rf sp) = Some sp' \<Longrightarrow> dims sp' = dims sp"
  by (auto simp: transform_by_def Let_def
      split: sum.splits prod.splits if_splits res.splits option.splits dest!: transform_by_ids_frame)

lemma bind_store_after:
  "store_after (bind r f) = Some sp' \<Longrightarrow>
     (\<exists>e. r = Raise e sp') \<or> (\<exists>a s1. r = Return a s1 \<and> store_after (f a s1) = Some sp')"
  by (cases r) (auto simp: bind_def)

lemma clone_selection_extends:
  assumes pc: "0 < primitive_counter sp"
    and a: "store_after (clone_selection ob off ps cs kw sp) = Some sp'"
  shows "extends (dims sp) (dims sp')"
proof (cases "interleave_kwargs (cuboid_visual_metadata sp) kw [0 ..< length ps + length cs]")
  case (Inl e)
  with a show ?thesis by (simp add: clone_selection_def)
next
  case (Inr iks)
  let ?tail = "\<lambda>new_primitive_ids sp1.
          bind (clone_composites ob off (zip cs iks) [] sp1)
            (\<lambda>new_composite_ids sp2.
               let min_id = (if new_primitive_ids \<noteq> [] then hd new_primitive_ids
                             else fst (hd new_composite_ids));
                   stop_id = (if new_composite_ids = [] then last new_primitive_ids + 1
                              else snd (last new_composite_ids));
                   sp3 = sp2\<lparr>changelog := changelog sp2 @ [Addition (time_step sp2) None]\<rparr>;
                   sp4 = sp3\<lparr>time_step := time_step sp3 + 1\<rparr>
               in update_bounds (min_id, stop_id) sp4)"
  from a Inr have b: "store_after (bind (clone_primitives ob off (zip ps iks) [] sp) ?tail) = Some sp'"
    by (simp add: clone_selection_def)
  from bind_store_after[OF b] show ?thesis
  proof
    assume "\<exists>e. clone_primitives ob off (zip ps iks) [] sp = Raise e sp'"
    then show ?thesis using clone_primitives_extends[OF pc, of ob off "zip ps iks" "[]" sp'] by auto
  next
    assume "\<exists>np s1. clone_primitives ob off (zip ps iks) [] sp = Return np s1
              \<and> store_after (?tail np s1) = Some sp'"
    then obtain np s1 where r1: "clone_primitives ob off (zip ps iks) [] sp = Return np s1"
      and t1: "store_after (?tail np s1) = Some sp'" by blast
    from r1 clone_primitives_extends[OF pc, of ob off "zip ps iks" "[]" s1]
    have e1: "extends (dims sp) (dims s1)" and pc1: "0 < primitive_counter s1" by auto
    from bind_store_after[OF t1] show ?thesis
    proof
      assume "\<exists>e. clone_composites ob off (zip cs iks) [] s1 = Raise e sp'"
      then show ?thesis
        using clone_composites_extends[OF pc1, of ob off "zip cs iks" "[]" sp'] e1
        by (auto intro: extends_trans)
    next
      assume "\<exists>nc s2. clone_composites ob off (zip cs iks) [] s1 = Return nc s2
                \<and> store_after
                  (let min_id = (if np \<noteq> [] then hd np else fst (hd nc));
                       stop_id = (if nc = [] then last np + 1 else snd (last nc));
                       sp3 = s2\<lparr>changelog := changelog s2 @ [Addition (time_step s2) None]\<rparr>;
                       sp4 = sp3\<lparr>time_step := time_step sp3 + 1\<rparr>
                   in update_bounds (min_id, stop_id) sp4) = Some sp'"
      then obtain nc s2 sl where r2: "clone_composites ob off (zip cs iks) [] s1 = Return nc s2"
        and u: "store_after (update_bounds sl
                  (s2\<lparr>changelog := changelog s2 @ [Addition (time_step s2) None],
                      time_step := time_step s2 + 1\<rparr>)) = Some sp'"
        by (auto simp: Let_def)
      from r2 clone_composites_extends[OF pc1, of ob off "zip cs iks" "[]" s2]
      have e2: "extends (dims s1) (dims s2)" by auto
      from update_bounds_extends[OF u] have e3: "extends (dims s2) (dims sp')" by simp
      from e1 e2 e3 show ?thesis by (blast intro: extends_trans)
    qed
  qed
qed

lemma clone_by_offset_extends:
  "0 < primitive_counter sp \<Longrightarrow> store_after (clone_by_offset ob off co na ti sc kw sp) = Some sp' \<Longrightarrow>
     extends (dims sp) (dims sp')"
  by (auto simp: clone_by_offset_def Let_def
      split: sum.splits prod.splits if_splits option.splits
      dest: clone_selection_extends)

lemma run_extends:
  assumes "0 < primitive_counter sp" and "store_after (run ob c sp) = Some sp'"
  shows "extends (dims sp) (dims sp')"
proof (cases c)
  case (AddCube x)
  with assms add_cube_extends[of sp x sp'] show ?thesis by simp
next
  case (AddCuboid x)
  with assms add_cube_extends[of sp x sp'] show ?thesis by (simp add: add_cuboid_def)
next
  case (AddComposite x)
  with assms add_composite_extends[of sp x sp'] show ?thesis by simp
next
  case (MutateBy sel kw)
  with assms mutate_by_dims[of sel kw sp sp'] show ?thesis by simp
next
  case (TransformBy sel tr rf)
  with assms transform_by_dims[of sel tr rf sp sp'] show ?thesis by simp
next
  case (CloneByOffset off co na ti sc kw)
  with assms clone_by_offset_extends[of sp ob off co na ti sc kw sp'] show ?thesis by simp
next
  case Snapshot
  with assms show ?thesis by (auto simp: snapshot_def Let_def split: if_splits)
qed


lemma inside_update:
  "v \<in> set pts \<Longrightarrow>
     inside (mk_dims (vmin (dims_mins d) (vmin_list pts)) (vmax (dims_maxes d) (vmax_list pts))) v"
  unfolding inside_def
  by (auto intro: vle_trans[OF vmin_le2 vmin_list_le] vle_trans[OF vmax_list_ge vmax_ge2])

lemma update_bounds_contains:
  "update_bounds sl sp = Return () sp' \<Longrightarrow>
     b \<in> set (slice_rows sl (cuboid_coordinates sp)) \<Longrightarrow> v \<in> set (block_vertices b) \<Longrightarrow>
     inside (dims sp') v \<and> length (slice_rows sl (cuboid_coordinates sp)) = snd sl - fst sl"
  by (auto simp: update_bounds_def Let_def split: if_splits intro!: inside_update bexI[of _ b])

lemma add_cuboid_primitive_stored:
  "add_cuboid_primitive c sp = Return pid sp1 \<Longrightarrow>
     pid < length (cuboid_coordinates sp1) \<and> cuboid_coordinates sp1 ! pid = c_faces c"
  by (auto simp: add_cuboid_primitive_def Let_def np_resize_def split: if_splits)

lemma add_name_coordinates:
  "add_name n ids sp = Return x sp1 \<Longrightarrow> cuboid_coordinates sp1 = cuboid_coordinates sp"
  by (auto simp: add_name_def split: option.splits if_splits)

lemma slice_rows_one:
  "p < length xs \<Longrightarrow> slice_rows (p, Suc p) xs = [xs ! p]"
  by (simp add: slice_rows_def slice_lo_def slice_hi_def min_def max_def take_Suc hd_drop_conv_nth)

lemma add_cube_contains:
  assumes "add_cube c sp = Return () sp'" and "v \<in> set (block_vertices (c_faces c))"
  shows "inside (dims sp') v"
proof -
  from assms(1) obtain pid sp1 sp2 where
    p: "add_cuboid_primitive c sp = Return pid sp1"
    and n: "add_name (c_name c) (Some [pid], None) sp1 = Return () sp2"
    and u: "update_bounds (pid, pid + 1)
              (sp2\<lparr>num_objs := num_objs sp2 + 1,
                   changelog := changelog sp2 @ [Addition (time_step sp2) None],
                   time_step := time_step sp2 + 1\<rparr>) = Return () sp'"
    by (auto simp: add_cube_def bind_def Let_def split: res.splits)
  from add_cuboid_primitive_stored[OF p] add_name_coordinates[OF n]
  have "pid < length (cuboid_coordinates sp2)" and "cuboid_coordinates sp2 ! pid = c_faces c"
    by simp_all
  then have "c_faces c \<in> set (slice_rows (pid, pid + 1) (cuboid_coordinates sp2))"
    by (simp add: slice_rows_one)
  with update_bounds_contains[OF u, of "c_faces c" v] assms(2) show ?thesis by simp
qed

lemma np_assign_rows_slice:
  assumes "np_assign_rows sl rows xs = Some ys"
    and "length (slice_rows sl ys) = length rows"
  shows "slice_rows sl ys = rows"
proof -
  let ?lo = "slice_lo sl (length xs)" and ?hi = "slice_hi sl (length xs)"
  have lo: "?lo \<le> ?hi" "?hi \<le> length xs"
    by (simp_all add: slice_lo_def slice_hi_def)
  show ?thesis
  proof (cases "length rows = ?hi - ?lo")
    case True
    with assms(1) have ys: "ys = take ?lo xs @ rows @ drop ?hi xs"
      by (simp add: np_assign_rows_def Let_def)
    with True lo have len: "length ys = length xs" by simp
    have "drop ?lo ys = rows @ drop ?hi xs" using ys lo by simp
    then show ?thesis using True len by (simp add: slice_rows_def)
  next
    case False
    with assms(1) have one: "length rows = 1"
      and ys: "ys = take ?lo xs @ replicate (?hi - ?lo) (hd rows) @ drop ?hi xs"
      by (auto simp: np_assign_rows_def Let_def split: if_splits)
    with lo have len: "length ys = length xs" by simp
    have "drop ?lo ys = replicate (?hi - ?lo) (hd rows) @ drop ?hi xs" using ys lo by simp
    then have "length (slice_rows sl ys) = ?hi - ?lo" using len by (simp add: slice_rows_def)
    with assms(2) False show ?thesis by simp
  qed
qed

lemma add_cuboid_composite_stored:
  "add_cuboid_composite k sp = Return sl sp1 \<Longrightarrow>
     snd sl - fst sl = length (k_faces k)
     \<and> (length (slice_rows sl (cuboid_coordinates sp1)) = length (k_faces k)
          \<longrightarrow> slice_rows sl (cuboid_coordinates sp1) = k_faces k)"
  by (auto simp: add_cuboid_composite_def Let_def split: if_splits option.splits
      dest: np_assign_rows_slice)

lemma add_composite_contains:
  assumes "add_composite k sp = Return () sp'"
    and "b \<in> set (k_faces k)" and "v \<in> set (block_vertices b)"
  shows "inside (dims sp') v"
proof -
  from assms(1) obtain sl sp1 sp2 where
    p: "add_cuboid_composite k sp = Return sl sp1"
    and n: "add_name (k_name k) (None, Some [sl]) sp1 = Return () sp2"
    and u: "update_bounds sl
              (sp2\<lparr>num_objs := num_objs sp2 + 1,
                   changelog := changelog sp2 @ [Addition (time_step sp2) None],
                   time_step := time_step sp2 + 1\<rparr>) = Return () sp'"
    by (auto simp: add_composite_def bind_def Let_def split: res.splits)
  let ?rows = "slice_rows sl (cuboid_coordinates sp2)"
  from u have "length ?rows = snd sl - fst sl"
    by (auto simp: update_bounds_def Let_def split: if_splits)
  with add_cuboid_composite_stored[OF p] add_name_coordinates[OF n]
  have "?rows = k_faces k" by simp
  with update_bounds_contains[OF u, of b v] assms(2,3) show ?thesis by simp
qed











lemma apart_disjoint:
  assumes "snd c \<le> fst d \<or> snd d \<le> fst c" and "in_slice d i"
  shows "\<not> in_slice c i"
  using assms by (auto simp: in_slice_def)






lemma returns_eq: "returns r \<Longrightarrow> r = Return () (the (store_after r))"
  by (cases r) (auto simp: returns_def)

text \<open>
  What does hold of growth, of no-op calls and of the transform arguments: a resize keeps
  every stored slot at its index; a composite of 15 members on 9 stored primitives and
  10 slots gets 20 slots and its slice assignment raises; a mutate or transform call
  on an empty selection, with no property to change or with the zero translation returns
  with the store as it was; and a transform call with neither or both of \<open>translate\<close>
  and \<open>reflect\<close> raises.
\<close>

lemma np_resize_keeps:
  "i < length xs \<Longrightarrow> i < n \<Longrightarrow> np_resize n z xs ! i = xs ! i"
  by (simp add: np_resize_def nth_append)

lemma composite_overflow:
  assumes "primitive_counter sp = 9" and "length (cuboid_coordinates sp) = 10"
    and "length (k_faces k) = 15"
  shows "raised (add_cuboid_composite k sp) = Some NumpyValueError"
proof -
  have g: "grow_entries 10 15 = Some 10" by (simp add: grow_entries.simps)
  have ne: "k_faces k \<noteq> []" using assms(3) by auto
  have a: "np_assign_rows (9, 24) (k_faces k)
             (np_resize 20 zero_block (cuboid_coordinates sp)) = None"
    using assms(2,3)
    by (simp add: np_assign_rows_def np_resize_def slice_lo_def slice_hi_def Let_def)
  show ?thesis
    using assms g ne a
    by (simp add: add_cuboid_composite_def Let_def raised_def)
qed

lemma noop_mutate:
  assumes "select sel sp = Inr (ps, cs)" and "ps = [] \<and> cs = [] \<or> kw = []"
  shows "mutate_by sel kw sp = Return () sp"
  using assms by (auto simp: mutate_by_def Let_def)

lemma noop_transform:
  assumes "select sel sp = Inr (ps, cs)"
  shows "ps = [] \<and> cs = [] \<Longrightarrow> transform_by sel (Some v) None sp = Return () sp"
    and "ps = [] \<and> cs = [] \<Longrightarrow> transform_by sel None (Some r) sp = Return () sp"
    and "transform_by sel (Some (0, 0, 0)) None sp = Return () sp"
proof -
  show "ps = [] \<and> cs = [] \<Longrightarrow> transform_by sel (Some v) None sp = Return () sp"
    using assms by (cases v) (simp add: transform_by_def transform_kind_def Let_def)
  show "ps = [] \<and> cs = [] \<Longrightarrow> transform_by sel None (Some r) sp = Return () sp"
    using assms by (cases r) (simp add: transform_by_def transform_kind_def Let_def)
  show "transform_by sel (Some (0, 0, 0)) None sp = Return () sp"
    using assms by (simp add: transform_by_def transform_kind_def Let_def)
qed

lemma exactly_one_of_two:
  assumes "select sel sp = Inr (ps, cs)"
  shows "transform_by sel None None sp = Raise ExactlyOneTransform sp"
    and "transform_by sel (Some t) (Some r) sp = Raise ExactlyOneTransform sp"
proof -
  show "transform_by sel None None sp = Raise ExactlyOneTransform sp"
    using assms by (simp add: transform_by_def Let_def)
  show "transform_by sel (Some t) (Some r) sp = Raise ExactlyOneTransform sp"
    using assms by (cases t; cases r) (simp add: transform_by_def Let_def)
qed








section \<open>Selection by scene\<close>

text \<open>
  C9. For every scene id and every store, selection by scene, when it returns, lists
  each primitive id at most once and each composite range at most once, however often
  the id or range was touched in the scene; ranges are compared by their (start, stop)
  pair.
\<close>

theorem select_by_scene_distinct:
  "select_by_scene s sp = Inr (ps, cs) \<Longrightarrow> distinct ps \<and> distinct cs"
  by (auto simp: select_by_scene_def split: if_splits)

theorem select_by_scene_distinct_witness:
  "get_primitives_by_scene (cuboid_index thrice_touched) 0 = [0, 0, 0]
   \<and> select_by_scene 0 thrice_touched = Inr ([0], [])
   \<and> distinct [0 :: nat]"
proof -
  have g: "get_primitives_by_scene (cuboid_index thrice_touched) 0 = [0, 0, 0]"
    by code_simp
  have e: "select_by_scene 0 thrice_touched = Inr ([0], [])"
    by code_simp
  from select_by_scene_distinct[OF e] g e show ?thesis by simp
qed

section \<open>Failed calls\<close>

text \<open>
  C1, as the code has it. When a public call fails validation (duplicate name, unknown
  key, malformed coordinate, unknown name, time-step or scene out of range, not exactly
  one transform or selection argument, snapshot of an empty scene), no entry has been
  appended to the change log, and the time-step counter, the scene counter, the object
  count and the name index are as before the call. The whole store is as before the call
  for every such failure except a duplicate name in an add call and an unknown key in a
  mutate call; an unknown key in a mutate call leaves everything but the visual metadata
  as before.
\<close>

theorem validation_failure_frame:
  assumes "run ob c sp = Raise e sp'" and "validation_error e"
  shows "failure_frame c e sp sp'"
proof (cases c)
  case (AddCube x)
  with assms add_cube_failure[of x sp e sp'] show ?thesis
    by (auto simp: failure_frame_def same_log_def aborts_clean_def)
next
  case (AddCuboid x)
  with assms add_cube_failure[of x sp e sp'] show ?thesis
    by (auto simp: failure_frame_def same_log_def aborts_clean_def add_cuboid_def)
next
  case (AddComposite x)
  with assms add_composite_failure[of x sp e sp'] show ?thesis
    by (auto simp: failure_frame_def same_log_def aborts_clean_def)
next
  case (MutateBy sel kw)
  with assms have r: "mutate_by sel kw sp = Raise e sp'" by simp
  from mutate_by_failure[OF r] have
    m: "sp' = sp\<lparr>cuboid_visual_metadata := cuboid_visual_metadata sp'\<rparr>"
    and u: "e \<noteq> UnknownKey \<and> e \<noteq> IndexError \<longrightarrow> sp' = sp" by simp_all
  have f: "changelog sp' = changelog sp \<and> time_step sp' = time_step sp
     \<and> scene_counter sp' = scene_counter sp \<and> cuboid_names sp' = cuboid_names sp
     \<and> num_objs sp' = num_objs sp"
    by (metis m space.select_convs space.surjective space.update_convs(10))
  from f m u MutateBy show ?thesis
    by (auto simp: failure_frame_def aborts_clean_def)
next
  case (TransformBy sel tr rf)
  with assms transform_by_failure[of sel tr rf sp e sp'] show ?thesis
    by (auto simp: failure_frame_def)
next
  case (CloneByOffset off co na ti sc kw)
  with assms clone_by_offset_failure[of ob off co na ti sc kw sp e sp'] show ?thesis
    by (auto simp: failure_frame_def)
next
  case Snapshot
  with assms snapshot_failure[of sp e sp'] show ?thesis
    by (auto simp: failure_frame_def)
qed

theorem validation_failure_frame_witness:
  "validation_error NameExists
   \<and> raised (run example_objects (AddCube (example_cube (0, 0, 0) (Some ''foo''))) one_foo)
       = Some NameExists
   \<and> failure_frame (AddCube (example_cube (0, 0, 0) (Some ''foo''))) NameExists one_foo
       (the (store_after (run example_objects (AddCube (example_cube (0, 0, 0) (Some ''foo''))) one_foo)))"
proof -
  have v: "validation_error NameExists" by (simp add: validation_error_def)
  have e: "raised (run example_objects (AddCube (example_cube (0, 0, 0) (Some ''foo''))) one_foo)
             = Some NameExists"
    by code_simp
  from validation_failure_frame[OF raised_eq[OF e] v] v e show ?thesis by simp
qed

text \<open>
  C1 as stated fails: adding a second cube under the name foo raises, and at the raise
  the cube is already in the buffers, the visual metadata and the temporal index, and
  the primitive counter has moved from 1 to 2.
\<close>

theorem duplicate_name_changes_store:
  "raised (run example_objects (AddCube (example_cube (0, 0, 0) (Some ''foo''))) one_foo)
     = Some NameExists
   \<and> primitive_counter one_foo = 1
   \<and> primitive_counter duplicate_foo = 2
   \<and> primitives (cuboid_index one_foo) = [0]
   \<and> primitives (cuboid_index duplicate_foo) = [0, 1]"
  by code_simp

section \<open>Additions in the change log\<close>



section \<open>Growth of the buffers\<close>

text \<open>
  C3. The claim is that appending never fails for want of capacity, both buffers being
  doubled when an append would exceed them. \<open>_add_cuboid_primitive\<close> resizes the
  coordinate buffer only: on a new space the eleventh cube finds the shape buffer still
  at ten slots, and writing its shape raises IndexError.
\<close>

theorem eleventh_cube_raises:
  "raised (run_all example_objects (replicate 11 (AddCube (example_cube (0, 0, 0) None))) init_space)
     = Some IndexError"
proof -
  have n: "c_name (example_cube (0, 0, 0) None) = None"
    by (simp add: example_cube_def example_cuboid_def Let_def)
  have "raised (run_all example_objects (replicate (Suc 10) (AddCube (example_cube (0, 0, 0) None))) init_space)
          = Some IndexError"
    by (rule add_cubes_overflow[OF n]) (simp_all add: init_space_def)
  then show ?thesis by (simp add: eval_nat_numeral)
qed

section \<open>Identity transforms\<close>

text \<open>
  C4. The claim is that a transform by the identity of its kind, the all-ones vector for
  a reflection, is a no-op. The code tests \<open>np.any(val)\<close>, which is true of the
  all-ones vector: reflecting the one cube of scene 0 by (1, 1, 1) appends a Transform
  entry, touches the cube in the index again and advances the time-step from 1 to 2.
\<close>

theorem identity_reflection_is_logged:
  "changelog reflected_by_ones
     = [Addition 0 None, Transform (1, 1, 1) ''reflection'' None None None (Some 0)]
   \<and> time_step reflected_by_ones = 2
   \<and> primitives (cuboid_index reflected_by_ones) = [0, 0]"
  by code_simp

section \<open>Selection by coordinate\<close>

text \<open>
  C6. The claim is that selection by coordinate returns exactly the standalone
  primitives whose base vertex is the converted coordinate. The primitive cursor starts
  at the first logged id and moves only on a match: with unit cubes at the origin (id 0)
  and at (5, 5, 5) (id 1), the coordinate (5, 5, 5) matches index 1, the cursor stays at
  0, and nothing is selected.
\<close>

theorem second_cube_not_selected:
  "select_by_coordinate [5, 5, 5] two_cubes = Inr ([], [])
   \<and> primitive_counter two_cubes = 2
   \<and> base_vertex (cuboid_coordinates two_cubes ! 1) = convert_basis (5, 5, 5)
   \<and> primitives (cuboid_index two_cubes) = [0, 1]
   \<and> composites (cuboid_index two_cubes) = []"
  by code_simp

section \<open>Transform arguments\<close>

text \<open>
  C8. The claim names three transform kinds, scale among them, validated for positive
  components and for primitives only. The transform methods take \<open>translate\<close> and
  \<open>reflect\<close>; a call with \<open>scale=\<close>, whatever the vector and the selection, raises
  TypeError when the arguments are bound, and no validation of the scale is reached.
\<close>

theorem scale_is_rejected:
  "transform_call sel [(''scale'', s)] sp = Raise TypeError sp"
  by (simp add: transform_call_def)

section \<open>The bounding box\<close>

text \<open>
  C2, as the code has it. From the first stored primitive on, no call lowers a per-axis
  maximum or raises a per-axis minimum of the bounding box, and an add call that
  returns leaves every vertex of the object it stored inside the box.
\<close>

theorem bounds_extend:
  assumes "store_after (run ob c sp) = Some sp'"
  shows "(0 < primitive_counter sp \<longrightarrow> extends (dims sp) (dims sp'))
         \<and> (returns (run ob c sp) \<longrightarrow> (\<forall>v \<in> set (inserted_vertices c). inside (dims sp') v))"
proof
  show "0 < primitive_counter sp \<longrightarrow> extends (dims sp) (dims sp')"
    using run_extends[OF _ assms] by simp
  show "returns (run ob c sp) \<longrightarrow> (\<forall>v \<in> set (inserted_vertices c). inside (dims sp') v)"
  proof (intro impI ballI)
    fix v
    assume r: "returns (run ob c sp)" and v: "v \<in> set (inserted_vertices c)"
    from r assms have ret: "run ob c sp = Return () sp'"
      by (cases "run ob c sp") (auto simp: returns_def)
    show "inside (dims sp') v"
    proof (cases c)
      case (AddCube x)
      with ret v add_cube_contains[of x sp sp' v] show ?thesis by simp
    next
      case (AddCuboid x)
      with ret v add_cube_contains[of x sp sp' v] show ?thesis by (simp add: add_cuboid_def)
    next
      case (AddComposite k)
      with ret v add_composite_contains[of k sp sp' _ v] show ?thesis by auto
    qed (use v in simp_all)
  qed
qed

theorem bounds_extend_witness:
  "returns (run example_objects (AddCube (example_cube (5, 5, 5) None)) one_foo)
   \<and> 0 < primitive_counter one_foo
   \<and> dims one_foo = ((0, 1), (0, 1), (0, 1))
   \<and> dims second_cube = ((0, 6), (0, 6), (0, 6))
   \<and> extends (dims one_foo) (dims second_cube)
   \<and> inside (dims second_cube) (6, 6, 6)"
proof -
  have r: "returns (run example_objects (AddCube (example_cube (5, 5, 5) None)) one_foo)"
    by code_simp
  have p: "0 < primitive_counter one_foo" by code_simp
  have d1: "dims one_foo = ((0, 1), (0, 1), (0, 1))" by code_simp
  have d2: "dims second_cube = ((0, 6), (0, 6), (0, 6))" by code_simp
  have v: "(6, 6, 6) \<in> set (inserted_vertices (AddCube (example_cube (5, 5, 5) None)))"
    by code_simp
  from bounds_extend[OF returns_store[OF r]] r p v d1 d2 show ?thesis
    unfolding second_cube_def by simp
qed

text \<open>
  C2 as stated fails twice. The first insertion replaces the initial box instead of
  merging into it: a cube at (5, 5, 5) raises every minimum from 0 to 5. And a transform
  does not touch the box: after a cube at the origin is translated by (10, 0, 0), the
  box is still the unit box and the cube's base vertex is outside it.
\<close>

theorem first_insertion_and_transform_bounds:
  "dims init_space = ((0, 0), (0, 0), (0, 0))
   \<and> dims first_cube = ((5, 6), (5, 6), (5, 6))
   \<and> dims moved_cube = ((0, 1), (0, 1), (0, 1))
   \<and> base_vertex (cuboid_coordinates moved_cube ! 0) = (10, 0, 0)
   \<and> \<not> inside (dims moved_cube) (base_vertex (cuboid_coordinates moved_cube ! 0))"
  by code_simp

section \<open>The transform log\<close>




section \<open>The mutation log\<close>




end
